theory Spec2Isabelle
  imports Main "HOL-Library.AList"
begin

section \<open>Python values, built-ins and the csv module\<close>

text \<open>
  The script is one Python module, \<^verbatim>\<open>Targeting_fragment_size.py\<close>. Its functions are
  embedded one by one, under their own names. What the module takes from Python itself
  (exceptions, \<^verbatim>\<open>int\<close>, \<^verbatim>\<open>str\<close>, \<^verbatim>\<open>dict\<close>, the \<^verbatim>\<open>csv\<close> readers and writers, \<^verbatim>\<open>print\<close>) is
  modelled in this first section.

  An exception that leaves a function is the left summand of its result; the script
  catches none, so an \<open>Inl\<close> at the top level is an aborted run.
\<close>

datatype py_error = ValueError | TypeError | KeyError | FileNotFoundError

text \<open>
  A string is a Python \<^verbatim>\<open>str\<close> whose code points are all below 256, one \<open>char\<close> for each code
  point (the text after decoding, not its UTF-8 bytes); text with a code point from 256 up is
  outside the type.

  The cells the script handles are strings, integers and \<^verbatim>\<open>None\<close>. \<open>py_str\<close> is \<^verbatim>\<open>str(x)\<close>, as
  an f-string applies it; \<open>csv_field\<close> is what \<^verbatim>\<open>csv.writer\<close> puts in a field: the empty string
  for \<^verbatim>\<open>None\<close>, and \<^verbatim>\<open>str(x)\<close> otherwise. \<^verbatim>\<open>str\<close> of an integer is its decimal numeral; the limit
  of 4300 digits, which the interpreter applies to this conversion too, is assumed not to be
  reached by the integers written.
\<close>

datatype pyval = PyStr string | PyInt int | PyNone

definition digit_char :: "nat \<Rightarrow> char" where
  "digit_char d = ''0123456789'' ! d"

fun nat_digits :: "nat \<Rightarrow> string" where
  "nat_digits n = (if n < 10 then [digit_char n] else nat_digits (n div 10) @ [digit_char (n mod 10)])"

declare nat_digits.simps [simp del]

definition str_int :: "int \<Rightarrow> string" where
  "str_int i = (if i < 0 then CHR ''-'' # nat_digits (nat (- i)) else nat_digits (nat i))"

fun py_str :: "pyval \<Rightarrow> string" where
  "py_str (PyStr s) = s"
| "py_str (PyInt i) = str_int i"
| "py_str PyNone = ''None''"

fun csv_field :: "pyval \<Rightarrow> string" where
  "csv_field PyNone = []"
| "csv_field v = py_str v"

text \<open>
  A cell read back by \<^verbatim>\<open>csv.DictReader\<close> is a string, or \<^verbatim>\<open>None\<close> where the row was shorter
  than the header: a \<open>string option\<close>.
\<close>

fun str_field :: "string option \<Rightarrow> string" where
  "str_field (Some s) = s"
| "str_field None = ''None''"

fun pyval_of_field :: "string option \<Rightarrow> pyval" where
  "pyval_of_field (Some s) = PyStr s"
| "pyval_of_field None = PyNone"

text \<open>
  \<^verbatim>\<open>int(s)\<close> on a string (CPython 3.11 and later, with the default settings): whitespace
  at both ends is dropped, one sign may lead, and the rest is a non-empty run of decimal
  digits in which single underscores may separate digits, with at most 4300 digits in all.
  Anything else raises \<^verbatim>\<open>ValueError\<close> (here \<open>None\<close>). Among the code points below 256 the
  whitespace \<^verbatim>\<open>int\<close> drops is tab, line feed, vertical tab, form feed, carriage return, space,
  U+0085 and U+00A0 (the separators U+001C to U+001F are not dropped), and the decimal digits
  are \<^verbatim>\<open>0\<close> to \<^verbatim>\<open>9\<close>.
\<close>

definition is_space :: "char \<Rightarrow> bool" where
  "is_space c = (c \<in> set [CHR 0x09, CHR 0x0A, CHR 0x0B, CHR 0x0C, CHR 0x0D, CHR 0x20,
                           CHR 0x85, CHR 0xA0])"

definition strip :: "string \<Rightarrow> string" where
  "strip s = rev (dropWhile is_space (rev (dropWhile is_space s)))"

definition digit_val :: "char \<Rightarrow> nat option" where
  "digit_val c = (let n = (of_char c :: nat) in if 48 \<le> n \<and> n \<le> 57 then Some (n - 48) else None)"

fun digits_value :: "string \<Rightarrow> nat \<Rightarrow> nat option" where
  "digits_value [] acc = Some acc"
| "digits_value (c # cs) acc =
     (if c = CHR ''_'' then
        (case cs of
           [] \<Rightarrow> None
         | d # ds \<Rightarrow> (case digit_val d of None \<Rightarrow> None | Some v \<Rightarrow> digits_value ds (10 * acc + v)))
      else (case digit_val c of None \<Rightarrow> None | Some v \<Rightarrow> digits_value cs (10 * acc + v)))"

definition max_str_digits :: nat where
  "max_str_digits = 4300"

definition parse_decimal :: "string \<Rightarrow> nat option" where
  "parse_decimal s =
     (if max_str_digits < length (filter (\<lambda>c. digit_val c \<noteq> None) s) then None
      else
        (case s of
           [] \<Rightarrow> None
         | c # cs \<Rightarrow> (case digit_val c of None \<Rightarrow> None | Some v \<Rightarrow> digits_value cs v)))"

definition py_int :: "string \<Rightarrow> int option" where
  "py_int s =
     (case strip s of
        [] \<Rightarrow> None
      | c # cs \<Rightarrow>
          if c = CHR ''-'' then map_option (\<lambda>n. - int n) (parse_decimal cs)
          else if c = CHR ''+'' then map_option int (parse_decimal cs)
          else map_option int (parse_decimal (c # cs)))"

text \<open>\<^verbatim>\<open>int(x)\<close> on a cell of a \<^verbatim>\<open>DictReader\<close> row: \<^verbatim>\<open>int(None)\<close> raises \<^verbatim>\<open>TypeError\<close>.\<close>

fun int_of_field :: "string option \<Rightarrow> py_error + int" where
  "int_of_field None = Inl TypeError"
| "int_of_field (Some s) = (case py_int s of None \<Rightarrow> Inl ValueError | Some i \<Rightarrow> Inr i)"

text \<open>
  A \<^verbatim>\<open>dict\<close> whose iteration order matters is an association list in insertion order with
  distinct keys: \<open>AList.update\<close> replaces the value of a key in place and puts a new key
  last, as an assignment \<^verbatim>\<open>d[k] = v\<close> does, and iterating the keys and indexing with each is
  iterating the pairs. \<open>dict_get\<close> is \<^verbatim>\<open>d[k]\<close>, which raises \<^verbatim>\<open>KeyError\<close> on a missing key. A
  \<^verbatim>\<open>dict\<close> that is only looked up is a map, and \<open>row_get\<close> is \<^verbatim>\<open>row[k]\<close> on it.
\<close>

definition dict_get :: "('k \<times> 'v) list \<Rightarrow> 'k \<Rightarrow> py_error + 'v" where
  "dict_get d k = (case map_of d k of None \<Rightarrow> Inl KeyError | Some v \<Rightarrow> Inr v)"

definition row_get :: "('k \<rightharpoonup> 'v) \<Rightarrow> 'k \<Rightarrow> py_error + 'v" where
  "row_get row k = (case row k of None \<Rightarrow> Inl KeyError | Some v \<Rightarrow> Inr v)"

text \<open>
  A CSV file is the list of its records, each a list of strings: what \<^verbatim>\<open>csv.reader\<close> yields
  and what \<^verbatim>\<open>csv.writer\<close> is given (a blank line is the empty record); the quoting of the
  text between the two is the library's. \<^verbatim>\<open>csv.DictReader\<close> takes the first record as the
  field names, skips empty records, and turns each other record into a \<^verbatim>\<open>dict\<close>: the pairs
  of \<^verbatim>\<open>zip(fieldnames, row)\<close> assigned in order (so the last of two equal names wins), then
  \<^verbatim>\<open>None\<close> for every name the row is too short for. Cells beyond the header go under the
  key \<^verbatim>\<open>None\<close>, which no string key reads.
\<close>

definition dict_row :: "string list \<Rightarrow> string list \<Rightarrow> (string \<rightharpoonup> string option)" where
  "dict_row fieldnames row =
     map_of (rev (zip fieldnames (map Some row @ replicate (length fieldnames - length row) None)))"

definition dict_reader :: "string list list \<Rightarrow> (string \<rightharpoonup> string option) list" where
  "dict_reader rows =
     (case rows of
        [] \<Rightarrow> []
      | fieldnames # body \<Rightarrow> map (dict_row fieldnames) (filter (\<lambda>row. row \<noteq> []) body))"

text \<open>
  The world of a run: the files by path, and the lines printed so far. Each printed line
  is recorded by its kind and its argument rather than as formatted text. Opening a
  missing file for reading raises \<^verbatim>\<open>FileNotFoundError\<close>; opening for writing creates or
  replaces the file. The world an aborted run leaves behind is not tracked.
\<close>

datatype message =
    Warning_enzyme_row "string list"
  | Warning_integration_row "string list"
  | Info_no_results
  | Info_results_written string
  | Info_final_written string

record world =
  files :: "string \<rightharpoonup> string list list"
  stdout :: "message list"

definition print :: "message \<Rightarrow> world \<Rightarrow> world" where
  "print m w = w\<lparr>stdout := stdout w @ [m]\<rparr>"

section \<open>Stage 1: distances from enzyme sites\<close>

subsection \<open>\<^verbatim>\<open>read_enzyme_positions\<close>\<close>

type_synonym enzyme_index = "(string \<times> (string \<times> int list) list) list"

text \<open>
  The body of the loop for a row of three fields: the enzyme's entry and, in it, the
  chromosome's list are created empty when missing, and the position is appended.
\<close>

definition append_position :: "enzyme_index \<Rightarrow> string \<Rightarrow> string \<Rightarrow> int \<Rightarrow> enzyme_index" where
  "append_position enzyme_positions enzyme chromosome p =
     (let chroms = (case map_of enzyme_positions enzyme of None \<Rightarrow> [] | Some cs \<Rightarrow> cs);
          ps = (case map_of chroms chromosome of None \<Rightarrow> [] | Some ps \<Rightarrow> ps)
      in AList.update enzyme (AList.update chromosome (ps @ [p]) chroms) enzyme_positions)"

fun read_enzyme_rows :: "string list list \<Rightarrow> enzyme_index \<Rightarrow> world \<Rightarrow> py_error + (enzyme_index \<times> world)" where
  "read_enzyme_rows [] enzyme_positions w = Inr (enzyme_positions, w)"
| "read_enzyme_rows (row # rows) enzyme_positions w =
     (if length row = 3 then
        (let enzyme = row ! 0; chromosome = row ! 1; position = row ! 2 in
         case py_int position of
           None \<Rightarrow> Inl ValueError
         | Some p \<Rightarrow> read_enzyme_rows rows (append_position enzyme_positions enzyme chromosome p) w)
      else read_enzyme_rows rows enzyme_positions (print (Warning_enzyme_row row) w))"

definition sort_positions :: "enzyme_index \<Rightarrow> enzyme_index" where
  "sort_positions enzyme_positions =
     map (\<lambda>(enzyme, chroms). (enzyme, map (\<lambda>(chrom, ps). (chrom, sort ps)) chroms)) enzyme_positions"

definition read_enzyme_positions :: "string \<Rightarrow> world \<Rightarrow> py_error + (enzyme_index \<times> world)" where
  "read_enzyme_positions filename w =
     (case files w filename of
        None \<Rightarrow> Inl FileNotFoundError
      | Some rows \<Rightarrow>
          (case read_enzyme_rows rows [] w of
             Inl e \<Rightarrow> Inl e
           | Inr (enzyme_positions, w') \<Rightarrow> Inr (sort_positions enzyme_positions, w')))"

subsection \<open>\<^verbatim>\<open>find_closest\<close>\<close>

text \<open>
  The scan goes through the positions from left to right with two variables, \<open>upstream\<close>
  and \<open>downstream\<close>, both \<^verbatim>\<open>None\<close> at the start. A position below the target overwrites
  \<open>upstream\<close>; the first position above the target (while \<open>downstream\<close> is still \<^verbatim>\<open>None\<close>) is
  stored and ends the loop with \<^verbatim>\<open>break\<close>; any other position is passed over.
\<close>

fun find_closest_loop :: "int list \<Rightarrow> int \<Rightarrow> int option \<Rightarrow> int option \<Rightarrow> int option \<times> int option" where
  "find_closest_loop [] target upstream downstream = (upstream, downstream)"
| "find_closest_loop (pos # positions) target upstream downstream =
     (if pos < target then find_closest_loop positions target (Some pos) downstream
      else if pos > target \<and> downstream = None then (upstream, Some pos)
      else find_closest_loop positions target upstream downstream)"

definition find_closest :: "int list \<Rightarrow> int \<Rightarrow> int option \<times> int option" where
  "find_closest positions target = find_closest_loop positions target None None"

subsection \<open>\<^verbatim>\<open>calculate_distances\<close>\<close>

text \<open>
  For one enzyme (given by its chromosome table) and one site: the two distance cells.
\<close>

definition enzyme_distances :: "(string \<times> int list) list \<Rightarrow> string \<Rightarrow> int \<Rightarrow> pyval \<times> pyval" where
  "enzyme_distances chroms chromosome position =
     (case map_of chroms chromosome of
        Some positions \<Rightarrow>
          (case find_closest positions position of
             (upstream, downstream) \<Rightarrow>
               (case upstream of Some u \<Rightarrow> PyInt (position - u) | None \<Rightarrow> PyStr ''N/A'',
                case downstream of Some d \<Rightarrow> PyInt (d - position) | None \<Rightarrow> PyStr ''N/A''))
      | None \<Rightarrow> (PyStr ''N/A'', PyStr ''N/A''))"

definition enzyme_cells :: "string \<Rightarrow> string \<times> (string \<times> int list) list \<Rightarrow> int \<Rightarrow> pyval list" where
  "enzyme_cells chromosome entry position =
     (case enzyme_distances (snd entry) chromosome position of
        (upstream_distance, downstream_distance) \<Rightarrow>
          [PyStr (fst entry), upstream_distance, downstream_distance])"

definition row_data :: "enzyme_index \<Rightarrow> string \<Rightarrow> string \<Rightarrow> int \<Rightarrow> pyval list" where
  "row_data enzyme_positions site_id chromosome position =
     [PyStr site_id, PyStr chromosome, PyInt position]
     @ concat (map (\<lambda>entry. enzyme_cells chromosome entry position) enzyme_positions)"

fun calculate_rows :: "enzyme_index \<Rightarrow> string list list \<Rightarrow> pyval list list \<Rightarrow> world \<Rightarrow> py_error + (pyval list list \<times> world)" where
  "calculate_rows enzyme_positions [] results w = Inr (results, w)"
| "calculate_rows enzyme_positions (row # rows) results w =
     (if length row = 3 then
        (let site_id = row ! 0; chromosome = row ! 1 in
         case py_int (row ! 2) of
           None \<Rightarrow> Inl ValueError
         | Some position \<Rightarrow>
             calculate_rows enzyme_positions rows
               (results @ [row_data enzyme_positions site_id chromosome position]) w)
      else calculate_rows enzyme_positions rows results (print (Warning_integration_row row) w))"

definition calculate_distances :: "enzyme_index \<Rightarrow> string \<Rightarrow> world \<Rightarrow> py_error + (pyval list list \<times> world)" where
  "calculate_distances enzyme_positions integration_sites w =
     (case files w integration_sites of
        None \<Rightarrow> Inl FileNotFoundError
      | Some rows \<Rightarrow> calculate_rows enzyme_positions rows [] w)"

subsection \<open>\<^verbatim>\<open>write_results\<close>\<close>

text \<open>\<^verbatim>\<open>chunked[i] for i in range(0, len(chunked), 3)\<close>: the cells at indices 0, 3, 6, ...\<close>

fun every_third :: "'a list \<Rightarrow> 'a list" where
  "every_third (x # y # z # xs) = x # every_third xs"
| "every_third (x # _) = [x]"
| "every_third [] = []"

definition results_header :: "pyval list \<Rightarrow> string list" where
  "results_header row_example =
     [''IntegrationSite#'', ''Chromosome'', ''Position'']
     @ concat (map (\<lambda>enzyme. [py_str enzyme @ '' UpstreamDist'', py_str enzyme @ '' DownstreamDist''])
                 (every_third (drop 3 row_example)))"

definition write_results :: "pyval list list \<Rightarrow> string \<Rightarrow> world \<Rightarrow> world" where
  "write_results results filename w =
     (case results of
        [] \<Rightarrow> print Info_no_results w
      | row_example # _ \<Rightarrow>
          print (Info_results_written filename)
            (w\<lparr>files := (files w)(filename \<mapsto> results_header row_example # map (map csv_field) results)\<rparr>))"

subsection \<open>The \<^verbatim>\<open>calc-distances\<close> command of \<^verbatim>\<open>main\<close>\<close>

definition main_calc_distances :: "string \<Rightarrow> string \<Rightarrow> string \<Rightarrow> world \<Rightarrow> py_error + world" where
  "main_calc_distances enzyme_file integration_file output w =
     (case read_enzyme_positions enzyme_file w of
        Inl e \<Rightarrow> Inl e
      | Inr (enzyme_positions, w1) \<Rightarrow>
          (case calculate_distances enzyme_positions integration_file w1 of
             Inl e \<Rightarrow> Inl e
           | Inr (results, w2) \<Rightarrow> Inr (write_results results output w2)))"

section \<open>Stage 2: final distances from lengths and directions\<close>

subsection \<open>\<^verbatim>\<open>read_fragment_lengths\<close> and \<^verbatim>\<open>read_directions\<close>\<close>

type_synonym lengths = "(string option \<times> (string \<times> int) list) list"

type_synonym directions = "string option \<rightharpoonup> (string \<rightharpoonup> string option)"

fun read_length_rows :: "(string \<rightharpoonup> string option) list \<Rightarrow> lengths \<Rightarrow> py_error + lengths" where
  "read_length_rows [] lengths = Inr lengths"
| "read_length_rows (row # rows) lengths =
     (case row_get row ''Name'' of
        Inl e \<Rightarrow> Inl e
      | Inr enzyme_name \<Rightarrow>
          (case row_get row ''L'' of
             Inl e \<Rightarrow> Inl e
           | Inr l \<Rightarrow>
               (case int_of_field l of
                  Inl e \<Rightarrow> Inl e
                | Inr li \<Rightarrow>
                    (case row_get row ''H'' of
                       Inl e \<Rightarrow> Inl e
                     | Inr h \<Rightarrow>
                         (case int_of_field h of
                            Inl e \<Rightarrow> Inl e
                          | Inr hi \<Rightarrow>
                              read_length_rows rows
                                (AList.update enzyme_name [(''L'', li), (''H'', hi)] lengths))))))"

definition read_fragment_lengths :: "string \<Rightarrow> world \<Rightarrow> py_error + lengths" where
  "read_fragment_lengths filename w =
     (case files w filename of
        None \<Rightarrow> Inl FileNotFoundError
      | Some rows \<Rightarrow> read_length_rows (dict_reader rows) [])"

fun read_direction_rows :: "(string \<rightharpoonup> string option) list \<Rightarrow> directions \<Rightarrow> py_error + directions" where
  "read_direction_rows [] directions = Inr directions"
| "read_direction_rows (row # rows) directions =
     (case row_get row ''IntegrationSite#'' of
        Inl e \<Rightarrow> Inl e
      | Inr site_id \<Rightarrow> read_direction_rows rows (directions(site_id \<mapsto> row)))"

definition read_directions :: "string \<Rightarrow> world \<Rightarrow> py_error + directions" where
  "read_directions filename w =
     (case files w filename of
        None \<Rightarrow> Inl FileNotFoundError
      | Some rows \<Rightarrow> read_direction_rows (dict_reader rows) Map.empty)"

subsection \<open>\<^verbatim>\<open>calculate_final_distances\<close>\<close>

text \<open>
  The innermost body, for one row, enzyme and \<open>direction_type\<close>, in three parts: the
  direction the site assigns (\<^verbatim>\<open>site_directions.get(direction_key, '')\<close>, with the empty
  \<^verbatim>\<open>dict\<close> for a site the directions do not hold), the \<open>dist_key\<close> it selects, and the value
  stored under \<open>direction_key\<close>.
\<close>

definition direction_key :: "string option \<Rightarrow> string \<Rightarrow> string" where
  "direction_key enzyme direction_type = str_field enzyme @ ''_'' @ direction_type"

definition user_direction :: "directions \<Rightarrow> string option \<Rightarrow> string \<Rightarrow> string option" where
  "user_direction directions site_id key =
     (let site_directions = (case directions site_id of Some d \<Rightarrow> d | None \<Rightarrow> Map.empty)
      in case site_directions key of Some v \<Rightarrow> v | None \<Rightarrow> Some [])"

definition dist_key :: "string option \<Rightarrow> string option \<Rightarrow> string option" where
  "dist_key enzyme direction =
     (if direction = Some ''up'' then Some (str_field enzyme @ '' UpstreamDist'')
      else if direction = Some ''down'' then Some (str_field enzyme @ '' DownstreamDist'')
      else None)"

text \<open>
  \<^verbatim>\<open>if dist_key and dist_key in row and row[dist_key] != 'N/A'\<close>: a \<open>dist_key\<close> that is
  \<^verbatim>\<open>None\<close> or empty, or not a key of the row, or whose cell is the string \<^verbatim>\<open>N/A\<close>, gives
  \<^verbatim>\<open>'N/A'\<close>; any other cell goes through \<^verbatim>\<open>int\<close> and the offset is added.
\<close>

definition final_distance :: "(string \<rightharpoonup> string option) \<Rightarrow> lengths \<Rightarrow> string option \<Rightarrow> string \<Rightarrow> string option \<Rightarrow> py_error + pyval" where
  "final_distance row lengths enzyme direction_type key =
     (case key of
        None \<Rightarrow> Inr (PyStr ''N/A'')
      | Some k \<Rightarrow>
          if k = [] then Inr (PyStr ''N/A'')
          else
            (case row k of
               None \<Rightarrow> Inr (PyStr ''N/A'')
             | Some cell \<Rightarrow>
                 if cell \<noteq> Some ''N/A'' then
                   (case int_of_field cell of
                      Inl e \<Rightarrow> Inl e
                    | Inr base_distance \<Rightarrow>
                        (case dict_get lengths enzyme of
                           Inl e \<Rightarrow> Inl e
                         | Inr offsets \<Rightarrow>
                             (case dict_get offsets direction_type of
                                Inl e \<Rightarrow> Inl e
                              | Inr offset \<Rightarrow> Inr (PyInt (base_distance + offset)))))
                 else Inr (PyStr ''N/A'')))"

type_synonym final_record = "(string \<times> pyval) list"

definition final_value :: "(string \<rightharpoonup> string option) \<Rightarrow> directions \<Rightarrow> lengths \<Rightarrow> string option \<Rightarrow> string option \<Rightarrow> string \<Rightarrow> py_error + pyval" where
  "final_value row directions lengths site_id enzyme direction_type =
     final_distance row lengths enzyme direction_type
       (dist_key enzyme (user_direction directions site_id (direction_key enzyme direction_type)))"

text \<open>
  The state of the loops over a row: \<open>new_row\<close> and \<open>dynamic_fieldnames\<close>. One step stores
  the value under \<open>direction_key\<close> and adds the key to the set.
\<close>

definition direction_step :: "(string \<rightharpoonup> string option) \<Rightarrow> directions \<Rightarrow> lengths \<Rightarrow> string option \<Rightarrow> string option \<Rightarrow> string \<Rightarrow> final_record \<times> string set \<Rightarrow> py_error + (final_record \<times> string set)" where
  "direction_step row directions lengths site_id enzyme direction_type st =
     (case final_value row directions lengths site_id enzyme direction_type of
        Inl e \<Rightarrow> Inl e
      | Inr final \<Rightarrow>
          Inr (AList.update (direction_key enzyme direction_type) final (fst st),
               insert (direction_key enzyme direction_type) (snd st)))"

fun direction_loop :: "(string \<rightharpoonup> string option) \<Rightarrow> directions \<Rightarrow> lengths \<Rightarrow> string option \<Rightarrow> string option \<Rightarrow> string list \<Rightarrow> final_record \<times> string set \<Rightarrow> py_error + (final_record \<times> string set)" where
  "direction_loop row directions lengths site_id enzyme [] st = Inr st"
| "direction_loop row directions lengths site_id enzyme (direction_type # types) st =
     (case direction_step row directions lengths site_id enzyme direction_type st of
        Inl e \<Rightarrow> Inl e
      | Inr st' \<Rightarrow> direction_loop row directions lengths site_id enzyme types st')"

fun enzyme_loop :: "(string \<rightharpoonup> string option) \<Rightarrow> directions \<Rightarrow> lengths \<Rightarrow> string option \<Rightarrow> string option list \<Rightarrow> final_record \<times> string set \<Rightarrow> py_error + (final_record \<times> string set)" where
  "enzyme_loop row directions lengths site_id [] st = Inr st"
| "enzyme_loop row directions lengths site_id (enzyme # enzymes) st =
     (case direction_loop row directions lengths site_id enzyme [''L'', ''H''] st of
        Inl e \<Rightarrow> Inl e
      | Inr st' \<Rightarrow> enzyme_loop row directions lengths site_id enzymes st')"

definition final_row :: "(string \<rightharpoonup> string option) \<Rightarrow> directions \<Rightarrow> lengths \<Rightarrow> string set \<Rightarrow> py_error + (final_record \<times> string set)" where
  "final_row row directions lengths dynamic_fieldnames =
     (case row_get row ''IntegrationSite#'' of
        Inl e \<Rightarrow> Inl e
      | Inr site_id \<Rightarrow>
          (case row_get row ''Chromosome'' of
             Inl e \<Rightarrow> Inl e
           | Inr chromosome \<Rightarrow>
               (case row_get row ''Position'' of
                  Inl e \<Rightarrow> Inl e
                | Inr position \<Rightarrow>
                    enzyme_loop row directions lengths site_id (map fst lengths)
                      ([(''IntegrationSite#'', pyval_of_field site_id),
                        (''Chromosome'', pyval_of_field chromosome),
                        (''Position'', pyval_of_field position)],
                       dynamic_fieldnames))))"

fun final_rows :: "(string \<rightharpoonup> string option) list \<Rightarrow> directions \<Rightarrow> lengths \<Rightarrow> final_record list \<Rightarrow> string set \<Rightarrow> py_error + (final_record list \<times> string set)" where
  "final_rows [] directions lengths final_distances dynamic_fieldnames =
     Inr (final_distances, dynamic_fieldnames)"
| "final_rows (row # rows) directions lengths final_distances dynamic_fieldnames =
     (case final_row row directions lengths dynamic_fieldnames of
        Inl e \<Rightarrow> Inl e
      | Inr (new_row, dynamic_fieldnames') \<Rightarrow>
          final_rows rows directions lengths (final_distances @ [new_row]) dynamic_fieldnames')"

text \<open>
  The function returns \<^verbatim>\<open>list(dynamic_fieldnames)\<close>, the set's elements in an order Python
  leaves open. The model returns the set; the caller passes on a list of its elements.
\<close>

definition calculate_final_distances :: "string \<Rightarrow> directions \<Rightarrow> lengths \<Rightarrow> world \<Rightarrow> py_error + (final_record list \<times> string set)" where
  "calculate_final_distances distances_file directions lengths w =
     (case files w distances_file of
        None \<Rightarrow> Inl FileNotFoundError
      | Some rows \<Rightarrow>
          final_rows (dict_reader rows) directions lengths []
            {''IntegrationSite#'', ''Chromosome'', ''Position''})"

subsection \<open>\<^verbatim>\<open>write_final_distances\<close>\<close>

text \<open>
  \<^verbatim>\<open>csv.DictWriter.writerow\<close> raises \<^verbatim>\<open>ValueError\<close> for a record with a key outside the field
  names, and writes the empty string for a field name the record lacks.
  \<^verbatim>\<open>writeheader\<close> writes the field names themselves as the first record.
\<close>

definition dict_to_list :: "string list \<Rightarrow> final_record \<Rightarrow> py_error + string list" where
  "dict_to_list fieldnames rowdict =
     (if list_all (\<lambda>k. k \<in> set fieldnames) (map fst rowdict)
      then Inr (map (\<lambda>key. case map_of rowdict key of None \<Rightarrow> [] | Some v \<Rightarrow> csv_field v) fieldnames)
      else Inl ValueError)"

fun write_final_rows :: "string list \<Rightarrow> final_record list \<Rightarrow> string list list \<Rightarrow> py_error + string list list" where
  "write_final_rows fieldnames [] written = Inr written"
| "write_final_rows fieldnames (row # rows) written =
     (case dict_to_list fieldnames row of
        Inl e \<Rightarrow> Inl e
      | Inr cells \<Rightarrow> write_final_rows fieldnames rows (written @ [cells]))"

definition write_final_distances :: "final_record list \<Rightarrow> string list \<Rightarrow> string \<Rightarrow> world \<Rightarrow> py_error + world" where
  "write_final_distances final_distances fieldnames output_filename w =
     (case write_final_rows fieldnames final_distances [fieldnames] of
        Inl e \<Rightarrow> Inl e
      | Inr table \<Rightarrow>
          Inr (print (Info_final_written output_filename)
                 (w\<lparr>files := (files w)(output_filename \<mapsto> table)\<rparr>)))"

subsection \<open>The \<^verbatim>\<open>finalize-distances\<close> command of \<^verbatim>\<open>main\<close>\<close>

text \<open>\<open>list_of\<close> stands for \<^verbatim>\<open>list\<close> on a set of strings: some enumeration of the set.\<close>

definition main_finalize_distances :: "(string set \<Rightarrow> string list) \<Rightarrow> string \<Rightarrow> string \<Rightarrow> string \<Rightarrow> string \<Rightarrow> world \<Rightarrow> py_error + world" where
  "main_finalize_distances list_of lengths_file directions_file distances_file output w =
     (case read_fragment_lengths lengths_file w of
        Inl e \<Rightarrow> Inl e
      | Inr lengths \<Rightarrow>
          (case read_directions directions_file w of
             Inl e \<Rightarrow> Inl e
           | Inr directions \<Rightarrow>
               (case calculate_final_distances distances_file directions lengths w of
                  Inl e \<Rightarrow> Inl e
                | Inr (final_distances, dynamic_fieldnames) \<Rightarrow>
                    write_final_distances final_distances (list_of dynamic_fieldnames) output w)))"

section \<open>Example inputs\<close>

text \<open>
  The example of the specification: two \<^verbatim>\<open>EcoRI\<close> sites on \<^verbatim>\<open>chr1\<close>, at 100 and 500; one integration site at 300; offsets
  \<^verbatim>\<open>L = 50\<close> and \<^verbatim>\<open>H = -10\<close>; both offsets of the site directed \<^verbatim>\<open>up\<close>.
\<close>

definition example_world :: world where
  "example_world =
     \<lparr>files = [''enzymes.csv'' \<mapsto> [[''EcoRI'', ''chr1'', ''100''], [''EcoRI'', ''chr1'', ''500'']],
               ''sites.csv'' \<mapsto> [[''site1'', ''chr1'', ''300'']],
               ''lengths.csv'' \<mapsto> [[''Name'', ''L'', ''H''], [''EcoRI'', ''50'', ''-10'']],
               ''directions.csv'' \<mapsto> [[''IntegrationSite#'', ''EcoRI_L'', ''EcoRI_H''], [''site1'', ''up'', ''up'']]],
      stdout = []\<rparr>"

text \<open>An integration file whose only row has two fields: no row enters the results.\<close>

definition malformed_sites_world :: world where
  "malformed_sites_world =
     \<lparr>files = [''enzymes.csv'' \<mapsto> [[''EcoRI'', ''chr1'', ''100'']],
               ''sites.csv'' \<mapsto> [[''site1'', ''chr1'']]],
      stdout = []\<rparr>"

text \<open>The same enzyme sites with the integration site on the site at 100.\<close>

definition exact_match_world :: world where
  "exact_match_world =
     \<lparr>files = [''enzymes.csv'' \<mapsto> [[''EcoRI'', ''chr1'', ''100''], [''EcoRI'', ''chr1'', ''500'']],
               ''sites.csv'' \<mapsto> [[''site1'', ''chr1'', ''100'']]],
      stdout = []\<rparr>"

text \<open>
  Files with a field that is not an integer: a position \<^verbatim>\<open>1e3\<close>, a position \<^verbatim>\<open>12.5\<close>, an offset
  \<^verbatim>\<open>high\<close>, and a position \<^verbatim>\<open>5\<close> after the separator U+001C. In the last file the position is
  \<^verbatim>\<open>100\<close> after the no-break space U+00A0, which \<^verbatim>\<open>int\<close> drops.
\<close>

definition bad_number_world :: world where
  "bad_number_world =
     \<lparr>files = [''enzymes.csv'' \<mapsto> [[''EcoRI'', ''chr1'', ''100''], [''EcoRI'', ''chr1'', ''1e3'']],
               ''good_enzymes.csv'' \<mapsto> [[''EcoRI'', ''chr1'', ''100'']],
               ''sites.csv'' \<mapsto> [[''site0''], [''site1'', ''chr1'', ''12.5'']],
               ''lengths.csv'' \<mapsto> [[''Name'', ''L'', ''H''], [''EcoRI'', ''50'', ''high'']],
               ''separator.csv'' \<mapsto> [[''EcoRI'', ''chr1'', [CHR 0x1C, CHR ''5'']]],
               ''nbsp.csv'' \<mapsto> [[''EcoRI'', ''chr1'', [CHR 0xA0, CHR ''1'', CHR ''0'', CHR ''0'']]]],
      stdout = []\<rparr>"

text \<open>
  The world with the rows of one file that do not have exactly three fields removed, and
  an input of stage 1 with such rows among the others.
\<close>

definition without_malformed :: "string \<Rightarrow> world \<Rightarrow> world" where
  "without_malformed path w =
     w\<lparr>files := (files w)(path := map_option (filter (\<lambda>row. length row = 3)) (files w path))\<rparr>"

definition interleaved_world :: world where
  "interleaved_world =
     \<lparr>files = [''enzymes.csv'' \<mapsto> [[''EcoRI''], [''EcoRI'', ''chr1'', ''100''], [], [''EcoRI'', ''chr1'', ''500'', ''x'']],
               ''sites.csv'' \<mapsto> [[''site0'', ''chr1''], [''site1'', ''chr1'', ''300'']]],
      stdout = []\<rparr>"

text \<open>
  Distance tables for stage 2, with the lengths and directions of the example: one whose
  row has a cell for every name of the header, and one that holds the header only.
\<close>

definition aligned_world :: world where
  "aligned_world =
     \<lparr>files = [''lengths.csv'' \<mapsto> [[''Name'', ''L'', ''H''], [''EcoRI'', ''50'', ''-10'']],
               ''directions.csv'' \<mapsto> [[''IntegrationSite#'', ''EcoRI_L'', ''EcoRI_H''], [''site1'', ''up'', ''down'']],
               ''distances.csv'' \<mapsto>
                 [[''IntegrationSite#'', ''Chromosome'', ''Position'', ''EcoRI UpstreamDist'', ''EcoRI DownstreamDist''],
                  [''site1'', ''chr1'', ''300'', ''200'', ''N/A''],
                  [''site2'', ''chr1'', ''40'', ''N/A'', ''60'']]],
      stdout = []\<rparr>"

definition header_only_world :: world where
  "header_only_world =
     \<lparr>files = [''lengths.csv'' \<mapsto> [[''Name'', ''L'', ''H''], [''EcoRI'', ''50'', ''-10'']],
               ''directions.csv'' \<mapsto> [[''IntegrationSite#'', ''EcoRI_L'', ''EcoRI_H''], [''site1'', ''up'', ''down'']],
               ''distances.csv'' \<mapsto>
                 [[''IntegrationSite#'', ''Chromosome'', ''Position'', ''EcoRI UpstreamDist'', ''EcoRI DownstreamDist'']]],
      stdout = []\<rparr>"

text \<open>The lengths and directions of the example as the two readers return them.\<close>

definition example_lengths :: lengths where
  "example_lengths = [(Some ''EcoRI'', [(''L'', 50), (''H'', - 10)])]"

definition example_directions :: directions where
  "example_directions =
     [Some ''site1'' \<mapsto>
        [''IntegrationSite#'' \<mapsto> Some ''site1'', ''EcoRI_L'' \<mapsto> Some ''up'', ''EcoRI_H'' \<mapsto> Some ''down'']]"

text \<open>
  A distance table of four sites, and directions in which the first two sites have both
  offsets assigned, the third is listed with another value for \<^verbatim>\<open>EcoRI_L\<close> and no key
  \<^verbatim>\<open>EcoRI_H\<close>, and the fourth is not listed.
\<close>

definition adjust_world :: world where
  "adjust_world =
     \<lparr>files = [''distances.csv'' \<mapsto>
                 [[''IntegrationSite#'', ''Chromosome'', ''Position'', ''EcoRI UpstreamDist'', ''EcoRI DownstreamDist''],
                  [''site1'', ''chr1'', ''300'', ''200'', ''N/A''],
                  [''site2'', ''chr1'', ''40'', ''N/A'', ''5''],
                  [''site3'', ''chr2'', ''10'', ''7'', ''8''],
                  [''site4'', ''chr2'', ''20'', ''1'', ''2'']]],
      stdout = []\<rparr>"

definition adjust_directions :: directions where
  "adjust_directions =
     [Some ''site1'' \<mapsto>
        [''IntegrationSite#'' \<mapsto> Some ''site1'', ''EcoRI_L'' \<mapsto> Some ''up'', ''EcoRI_H'' \<mapsto> Some ''down''],
      Some ''site2'' \<mapsto>
        [''IntegrationSite#'' \<mapsto> Some ''site2'', ''EcoRI_L'' \<mapsto> Some ''down'', ''EcoRI_H'' \<mapsto> Some ''down''],
      Some ''site3'' \<mapsto>
        [''IntegrationSite#'' \<mapsto> Some ''site3'', ''EcoRI_L'' \<mapsto> Some ''sideways'']]"

text \<open>
  A cell of a distance column that \<open>calculate_final_distances\<close> can take: the column is
  missing from the row, or the cell is \<^verbatim>\<open>N/A\<close>, or \<^verbatim>\<open>int\<close> accepts it.
\<close>

definition readable_cell :: "string option option \<Rightarrow> bool" where
  "readable_cell cell =
     (case cell of
        None \<Rightarrow> True
      | Some None \<Rightarrow> False
      | Some (Some s) \<Rightarrow> s = ''N/A'' \<or> py_int s \<noteq> None)"

text \<open>
  The names \<^verbatim>\<open><enzyme>_L\<close> and \<^verbatim>\<open><enzyme>_H\<close> of a list of enzymes: the keys the loops over a
  row assign.
\<close>

definition spec_keys :: "string option list \<Rightarrow> string set" where
  "spec_keys enzymes = {direction_key e t | e t. e \<in> set enzymes \<and> t \<in> {''L'', ''H''}}"

section \<open>Verification\<close>

subsection \<open>\<open>py_int\<close> at the edges of what \<^verbatim>\<open>int\<close> accepts\<close>

lemma py_int_boundary:
  "py_int [CHR 0x1C, CHR ''5''] = None"
  "py_int [CHR 0xA0, CHR ''1'', CHR ''0'', CHR ''0''] = Some 100"
  "py_int ''  -0_7 '' = Some (- 7)"
  "py_int ''1__0'' = None"
  by code_simp+

lemma py_int_digit_limit:
  "py_int (replicate 4301 (CHR ''1'')) = None"
proof -
  have d: "digit_val (CHR ''1'') = Some 1" by (simp add: digit_val_def)
  have s: "\<not> is_space (CHR ''1'')" by (simp add: is_space_def)
  have "strip (replicate 4301 (CHR ''1'')) = replicate 4301 (CHR ''1'')"
    using s by (simp add: strip_def dropWhile_replicate)
  moreover have "replicate 4301 (CHR ''1'') = CHR ''1'' # replicate 4300 (CHR ''1'')"
    by (simp add: replicate_Suc [symmetric] del: replicate_Suc)
  moreover have "parse_decimal (CHR ''1'' # replicate 4300 (CHR ''1'')) = None"
    using d by (simp add: parse_decimal_def max_str_digits_def)
  ultimately show ?thesis by (simp add: py_int_def)
qed

subsection \<open>The scan on an ascending list\<close>

lemma Max_sorted_last:
  "sorted xs \<Longrightarrow> xs \<noteq> [] \<Longrightarrow> Max (set xs) = last (xs :: int list)"
proof (induction xs)
  case Nil
  then show ?case by simp
next
  case (Cons x xs)
  show ?case
  proof (cases "xs = []")
    case True
    then show ?thesis by simp
  next
    case False
    with Cons have "Max (set xs) = last xs" by simp
    moreover from Cons.prems False have "x \<le> last xs" by simp
    ultimately show ?thesis using False by (simp add: max_def)
  qed
qed

lemma Min_sorted_hd:
  "sorted xs \<Longrightarrow> xs \<noteq> [] \<Longrightarrow> Min (set xs) = hd (xs :: int list)"
  by (cases xs) (auto intro: Min_eqI)

lemma find_closest_loop_sorted:
  "sorted positions \<Longrightarrow>
   find_closest_loop positions target upstream None =
     (case filter (\<lambda>p. p < target) positions of [] \<Rightarrow> upstream | b # bs \<Rightarrow> Some (last (b # bs)),
      case filter (\<lambda>p. target < p) positions of [] \<Rightarrow> None | a # _ \<Rightarrow> Some a)"
proof (induction positions arbitrary: upstream)
  case Nil
  then show ?case by simp
next
  case (Cons pos positions)
  then have srt: "sorted positions" and le: "\<forall>p \<in> set positions. pos \<le> p" by simp_all
  consider (below) "pos < target" | (above) "target < pos" | (equal) "pos = target" by linarith
  then show ?case
  proof cases
    case below
    then show ?thesis using Cons.IH [OF srt, of "Some pos"]
      by (simp split: list.splits)
  next
    case above
    with le have "filter (\<lambda>p. p < target) positions = []"
      by (auto simp: filter_empty_conv)
    with above show ?thesis by simp
  next
    case equal
    then show ?thesis using Cons.IH [OF srt, of upstream] by simp
  qed
qed

text \<open>
  Claim C1. On an ascending list of positions, \<open>find_closest\<close> returns as upstream the
  greatest position strictly below the target and as downstream the least position
  strictly above it, each \<open>None\<close> when there is no such position. A position equal to the
  target counts for neither side: the empty list and the list holding only the target
  both give \<open>(None, None)\<close>.
\<close>

theorem find_closest_nearest:
  assumes "sorted P"
  shows "find_closest P t =
           (if {p \<in> set P. p < t} = {} then None else Some (Max {p \<in> set P. p < t}),
            if {p \<in> set P. t < p} = {} then None else Some (Min {p \<in> set P. t < p}))
         \<and> find_closest [] t = (None, None)
         \<and> find_closest [t] t = (None, None)"
proof -
  let ?lo = "filter (\<lambda>p. p < t) P" and ?hi = "filter (\<lambda>p. t < p) P"
  have slo: "sorted ?lo" and shi: "sorted ?hi" using assms by (simp_all add: sorted_wrt_filter)
  have lo: "(case ?lo of [] \<Rightarrow> None | b # bs \<Rightarrow> Some (last (b # bs))) =
            (if {p \<in> set P. p < t} = {} then None else Some (Max {p \<in> set P. p < t}))"
  proof (cases "?lo = []")
    case True
    then have "{p \<in> set P. p < t} = {}" by (auto simp: filter_empty_conv)
    with True show ?thesis by simp
  next
    case False
    then have "{p \<in> set P. p < t} \<noteq> {}" by (auto simp: filter_empty_conv)
    moreover have "Max (set ?lo) = last ?lo" using slo False by (rule Max_sorted_last)
    ultimately show ?thesis using False by (simp split: list.splits)
  qed
  have hi: "(case ?hi of [] \<Rightarrow> None | a # _ \<Rightarrow> Some a) =
            (if {p \<in> set P. t < p} = {} then None else Some (Min {p \<in> set P. t < p}))"
  proof (cases "?hi = []")
    case True
    then have "{p \<in> set P. t < p} = {}" by (auto simp: filter_empty_conv)
    with True show ?thesis by simp
  next
    case False
    then have "{p \<in> set P. t < p} \<noteq> {}" by (auto simp: filter_empty_conv)
    moreover have "Min (set ?hi) = hd ?hi" using shi False by (rule Min_sorted_hd)
    ultimately show ?thesis using False by (auto split: list.splits)
  qed
  have "find_closest P t =
          (case ?lo of [] \<Rightarrow> None | b # bs \<Rightarrow> Some (last (b # bs)),
           case ?hi of [] \<Rightarrow> None | a # _ \<Rightarrow> Some a)"
    unfolding find_closest_def using assms by (rule find_closest_loop_sorted)
  then show ?thesis by (simp add: lo hi find_closest_def)
qed

theorem find_closest_nearest_witness:
  "sorted [100, 300, 300, 500 :: int]
   \<and> find_closest [100, 300, 300, 500] 300 = (Some 100, Some 500)
   \<and> find_closest [100, 300, 300, 500] 50 = (None, Some 100)
   \<and> find_closest [100, 300, 300, 500] 500 = (Some 300, None)"
proof -
  have s: "sorted [100, 300, 300, 500 :: int]" by simp
  have a: "{p \<in> set [100, 300, 300, 500 :: int]. p < 300} = {100}"
    and b: "{p \<in> set [100, 300, 300, 500 :: int]. 300 < p} = {500}"
    and c: "{p \<in> set [100, 300, 300, 500 :: int]. p < 50} = {}"
    and d: "{p \<in> set [100, 300, 300, 500 :: int]. 50 < p} = {100, 300, 500}"
    and e: "{p \<in> set [100, 300, 300, 500 :: int]. p < 500} = {100, 300}"
    and f: "{p \<in> set [100, 300, 300, 500 :: int]. 500 < p} = {}"
    by auto
  show ?thesis
    using find_closest_nearest [OF s, of 300] find_closest_nearest [OF s, of 50]
      find_closest_nearest [OF s, of 500]
    unfolding a b c d e f by (simp add: s)
qed

subsection \<open>Printing and reading leave the files alone\<close>

lemma print_files [simp]: "files (print m w) = files w"
  by (simp add: print_def)

lemma print_stdout [simp]: "stdout (print m w) = stdout w @ [m]"
  by (simp add: print_def)

lemma read_enzyme_rows_files:
  "read_enzyme_rows rows ep w = Inr (ep', w') \<Longrightarrow> files w' = files w"
  by (induction rows arbitrary: ep w) (auto simp: Let_def split: if_splits option.splits)

lemma read_enzyme_positions_files:
  "read_enzyme_positions filename w = Inr (ep, w') \<Longrightarrow> files w' = files w"
  by (auto simp: read_enzyme_positions_def split: option.splits sum.splits dest: read_enzyme_rows_files)

lemma calculate_rows_files:
  "calculate_rows ep rows results w = Inr (results', w') \<Longrightarrow> files w' = files w"
  by (induction rows arbitrary: results w) (auto simp: Let_def split: if_splits option.splits)

lemma calculate_distances_files:
  "calculate_distances ep filename w = Inr (results, w') \<Longrightarrow> files w' = files w"
  by (auto simp: calculate_distances_def split: option.splits dest: calculate_rows_files)

lemma py_int_100: "py_int ''100'' = Some 100"
  by code_simp

subsection \<open>No results, no file\<close>

text \<open>
  Claim C6. When the results that reach \<open>write_results\<close> are empty, it prints the line
  \<^verbatim>\<open>[INFO] No results to write.\<close> and does nothing else: the files after the call are the
  files before the run, so no output file appears, and the \<^verbatim>\<open>calc-distances\<close> command
  returns normally.
\<close>

theorem write_results_nothing_to_write:
  assumes "read_enzyme_positions enzyme_file w = Inr (enzyme_positions, w1)"
    and "calculate_distances enzyme_positions integration_file w1 = Inr ([], w2)"
  shows "main_calc_distances enzyme_file integration_file output w = Inr (write_results [] output w2)
         \<and> write_results [] output w2 = w2\<lparr>stdout := stdout w2 @ [Info_no_results]\<rparr>
         \<and> files (write_results [] output w2) = files w"
proof -
  have "files w2 = files w1" using assms(2) by (rule calculate_distances_files)
  moreover have "files w1 = files w" using assms(1) by (rule read_enzyme_positions_files)
  ultimately show ?thesis using assms
    by (simp add: main_calc_distances_def write_results_def print_def)
qed

theorem write_results_nothing_to_write_witness:
  "main_calc_distances ''enzymes.csv'' ''sites.csv'' ''out.csv'' malformed_sites_world =
     Inr (malformed_sites_world\<lparr>stdout := [Warning_integration_row [''site1'', ''chr1''], Info_no_results]\<rparr>)
   \<and> files malformed_sites_world ''out.csv'' = None"
proof -
  let ?w2 = "malformed_sites_world\<lparr>stdout := [Warning_integration_row [''site1'', ''chr1'']]\<rparr>"
  have a: "read_enzyme_positions ''enzymes.csv'' malformed_sites_world =
             Inr ([(''EcoRI'', [(''chr1'', [100])])], malformed_sites_world)"
    by (simp add: read_enzyme_positions_def malformed_sites_world_def py_int_100
        append_position_def sort_positions_def)
  have b: "calculate_distances [(''EcoRI'', [(''chr1'', [100])])] ''sites.csv'' malformed_sites_world =
             Inr ([], ?w2)"
    by (simp add: calculate_distances_def malformed_sites_world_def print_def)
  show ?thesis
    using write_results_nothing_to_write [OF a b, of "''out.csv''"]
    by (simp add: malformed_sites_world_def)
qed

subsection \<open>The final writer has no such guard\<close>

text \<open>
  Claim C10. \<open>write_final_distances\<close> does not test for an empty sequence: with no record
  it still opens the output file and writes the header, so the file holds the field names
  and nothing else. \<open>write_results\<close>, given no results, leaves the files as they were.
\<close>

theorem write_final_distances_header_only:
  "write_final_distances [] fieldnames output_filename w =
     Inr (w\<lparr>files := (files w)(output_filename \<mapsto> [fieldnames]),
            stdout := stdout w @ [Info_final_written output_filename]\<rparr>)
   \<and> files (write_results [] output_filename w) = files w"
  by (simp add: write_final_distances_def write_results_def print_def)

subsection \<open>The layout of a results row and of the header\<close>

lemma enzyme_cells_eq:
  "enzyme_cells chromosome entry position =
     [PyStr (fst entry), fst (enzyme_distances (snd entry) chromosome position),
      snd (enzyme_distances (snd entry) chromosome position)]"
  by (simp add: enzyme_cells_def split: prod.splits)

lemma concat_triples_nth:
  assumes "\<And>x. length (f x) = 3" and "k < length xs" and "j < 3"
  shows "concat (map f xs) ! (3 * k + j) = f (xs ! k) ! j"
  using assms(2)
proof (induction xs arbitrary: k)
  case Nil
  then show ?case by simp
next
  case (Cons x xs)
  show ?case
  proof (cases k)
    case 0
    then show ?thesis using assms(1) [of x] assms(3) by (simp add: nth_append)
  next
    case (Suc m)
    then have "m < length xs" using Cons.prems by simp
    then have "concat (map f xs) ! (3 * m + j) = f (xs ! m) ! j" by (rule Cons.IH)
    moreover have "3 * k + j = 3 + (3 * m + j)" using Suc by simp
    ultimately show ?thesis using assms(1) [of x] Suc by (simp add: nth_append)
  qed
qed

lemma length_concat_triples:
  "(\<And>x. length (f x) = 3) \<Longrightarrow> length (concat (map f xs)) = 3 * length xs"
  by (induction xs) simp_all

lemma every_third_concat_triples:
  "(\<And>x. length (f x) = 3) \<Longrightarrow> every_third (concat (map f xs)) = map (\<lambda>x. hd (f x)) xs"
proof (induction xs)
  case Nil
  then show ?case by simp
next
  case (Cons x xs)
  from Cons.prems [of x] obtain a b c where "f x = [a, b, c]"
    by (auto simp: length_Suc_conv numeral_3_eq_3)
  then show ?case using Cons by simp
qed

lemma row_data_nth:
  assumes "k < length enzyme_positions" and "j < 3"
  shows "row_data enzyme_positions site_id chromosome position ! (3 + 3 * k + j) =
           enzyme_cells chromosome (enzyme_positions ! k) position ! j"
proof -
  let ?f = "\<lambda>entry. enzyme_cells chromosome entry position"
  let ?ids = "[PyStr site_id, PyStr chromosome, PyInt position]"
  have len: "\<And>x. length (?f x) = 3" by (simp add: enzyme_cells_eq)
  have "(?ids @ concat (map ?f enzyme_positions)) ! (length ?ids + (3 * k + j))
          = concat (map ?f enzyme_positions) ! (3 * k + j)"
    by (rule nth_append_length_plus)
  also have "\<dots> = ?f (enzyme_positions ! k) ! j"
    using len assms by (rule concat_triples_nth)
  finally show ?thesis by (simp add: row_data_def add.assoc)
qed

lemma length_row_data:
  "length (row_data enzyme_positions site_id chromosome position) = 3 + 3 * length enzyme_positions"
  by (simp add: row_data_def length_concat_triples enzyme_cells_eq)

lemma results_header_row_data:
  "results_header (row_data enzyme_positions site_id chromosome position) =
     [''IntegrationSite#'', ''Chromosome'', ''Position'']
     @ concat (map (\<lambda>entry. [fst entry @ '' UpstreamDist'', fst entry @ '' DownstreamDist'']) enzyme_positions)"
proof -
  have "every_third (concat (map (\<lambda>entry. enzyme_cells chromosome entry position) enzyme_positions))
        = map (\<lambda>entry. hd (enzyme_cells chromosome entry position)) enzyme_positions"
    by (rule every_third_concat_triples) (simp add: enzyme_cells_eq)
  then show ?thesis
    by (simp add: results_header_def row_data_def enzyme_cells_eq comp_def)
qed

lemma length_results_header:
  "length (results_header (row_data enzyme_positions site_id chromosome position)) = 3 + 2 * length enzyme_positions"
  unfolding results_header_row_data by (induction enzyme_positions) simp_all

text \<open>
  Claim C2. A row of the results holds three cells per enzyme (its name and the two
  distances), the header \<open>write_results\<close> derives from the first row holds two names per
  enzyme, and the rows are written as they are. On the example of the specification the
  file gets a header of five fields and a data row of six, the enzyme name standing under
  \<^verbatim>\<open>EcoRI UpstreamDist\<close>.
\<close>

theorem stage1_row_wider_than_header:
  "map_sum id (\<lambda>w. files w ''out.csv'')
     (main_calc_distances ''enzymes.csv'' ''sites.csv'' ''out.csv'' example_world) =
   Inr (Some [[''IntegrationSite#'', ''Chromosome'', ''Position'', ''EcoRI UpstreamDist'', ''EcoRI DownstreamDist''],
              [''site1'', ''chr1'', ''300'', ''EcoRI'', ''200'', ''200'']])"
  by code_simp

text \<open>The same for every index and site: with \<open>n\<close> enzymes, \<open>3 + 3 * n\<close> cells under \<open>3 + 2 * n\<close> names.\<close>

lemma stage1_row_and_header_lengths:
  "length (row_data enzyme_positions site_id chromosome position) = 3 + 3 * length enzyme_positions
   \<and> length (results_header (row_data enzyme_positions site_id chromosome position))
       = 3 + 2 * length enzyme_positions"
  by (simp add: length_row_data length_results_header)

subsection \<open>Stage 2 on the output of stage 1\<close>

text \<open>
  Claim C3. Read back through the header, the row of the example gives the enzyme name
  \<^verbatim>\<open>EcoRI\<close> as the cell of \<^verbatim>\<open>EcoRI UpstreamDist\<close>; with both offsets directed \<^verbatim>\<open>up\<close>,
  \<open>calculate_final_distances\<close> passes it to \<^verbatim>\<open>int\<close> and the \<^verbatim>\<open>finalize-distances\<close> command
  aborts with \<^verbatim>\<open>ValueError\<close> instead of producing \<open>200 + 50\<close> and \<open>200 - 10\<close>.
\<close>

theorem stage2_on_stage1_output_aborts:
  "(case main_calc_distances ''enzymes.csv'' ''sites.csv'' ''out.csv'' example_world of
      Inl e \<Rightarrow> Inl e
    | Inr w \<Rightarrow>
        map_sum id (\<lambda>w'. files w' ''final.csv'')
          (main_finalize_distances list_of ''lengths.csv'' ''directions.csv'' ''out.csv'' ''final.csv'' w))
   = Inl ValueError"
  by code_simp

text \<open>
  On a table whose rows do match the header (the row of the example without the enzyme
  name), the same lengths and directions give the sums.
\<close>

lemma stage2_on_aligned_table:
  "(case read_fragment_lengths ''lengths.csv'' example_world of
      Inl e \<Rightarrow> Inl e
    | Inr lengths \<Rightarrow>
        (case read_directions ''directions.csv'' example_world of
           Inl e \<Rightarrow> Inl e
         | Inr directions \<Rightarrow>
             calculate_final_distances ''aligned.csv'' directions lengths
               (example_world\<lparr>files := (files example_world)(''aligned.csv'' \<mapsto>
                  [[''IntegrationSite#'', ''Chromosome'', ''Position'', ''EcoRI UpstreamDist'', ''EcoRI DownstreamDist''],
                   [''site1'', ''chr1'', ''300'', ''200'', ''200'']])\<rparr>)))
   = Inr ([[(''IntegrationSite#'', PyStr ''site1''), (''Chromosome'', PyStr ''chr1''), (''Position'', PyStr ''300''),
            (''EcoRI_L'', PyInt 250), (''EcoRI_H'', PyInt 190)]],
          {''IntegrationSite#'', ''Chromosome'', ''Position'', ''EcoRI_L'', ''EcoRI_H''})"
  by code_simp

subsection \<open>The token of an absent distance\<close>

lemma absent_cells:
  "(case map_of chroms chromosome of None \<Rightarrow> True | Some ps \<Rightarrow> fst (find_closest ps position) = None)
     \<Longrightarrow> csv_field (fst (enzyme_distances chroms chromosome position)) = ''N/A''"
  "(case map_of chroms chromosome of None \<Rightarrow> True | Some ps \<Rightarrow> snd (find_closest ps position) = None)
     \<Longrightarrow> csv_field (snd (enzyme_distances chroms chromosome position)) = ''N/A''"
  by (auto simp: enzyme_distances_def split: option.splits prod.splits)

text \<open>
  Claim C5, as the program has it. The token is the string \<^verbatim>\<open>N/A\<close>. For the enzyme at index
  \<open>k\<close> of the index, a row of the results carries the upstream distance at cell
  \<open>3 + 3 * k + 1\<close> and the downstream distance at cell \<open>3 + 3 * k + 2\<close>; when the distance is
  absent (the chromosome is not in the enzyme's table, or \<open>find_closest\<close> found no position
  on that side) the cell written is \<^verbatim>\<open>N/A\<close>, not the empty string. \<open>write_results\<close> writes the
  rows cell by cell under the header. In stage 2, a cell that is present under the selected
  column yields \<^verbatim>\<open>N/A\<close> exactly when it equals \<^verbatim>\<open>N/A\<close>.
\<close>

theorem absent_distance_token:
  assumes "k < length enzyme_positions"
  shows "((case map_of (snd (enzyme_positions ! k)) chromosome of
             None \<Rightarrow> True
           | Some ps \<Rightarrow> fst (find_closest ps position) = None)
          \<longrightarrow> map csv_field (row_data enzyme_positions site_id chromosome position) ! (3 + 3 * k + 1) = ''N/A'')
       \<and> ((case map_of (snd (enzyme_positions ! k)) chromosome of
             None \<Rightarrow> True
           | Some ps \<Rightarrow> snd (find_closest ps position) = None)
          \<longrightarrow> map csv_field (row_data enzyme_positions site_id chromosome position) ! (3 + 3 * k + 2) = ''N/A'')
       \<and> (results \<noteq> [] \<longrightarrow>
            files (write_results results filename w) filename =
              Some (results_header (hd results) # map (map csv_field) results))
       \<and> (key \<noteq> [] \<and> row key = Some (Some cell) \<longrightarrow>
            (final_distance row lengths enzyme direction_type (Some key) = Inr (PyStr ''N/A''))
              = (cell = ''N/A''))"
proof -
  let ?r = "row_data enzyme_positions site_id chromosome position"
  have len: "length ?r = 3 + 3 * length enzyme_positions" by (rule length_row_data)
  have i1: "3 + 3 * k + 1 < length ?r" and i2: "3 + 3 * k + 2 < length ?r"
    using assms len by simp_all
  have c1: "?r ! (3 + 3 * k + 1) = fst (enzyme_distances (snd (enzyme_positions ! k)) chromosome position)"
    using row_data_nth [OF assms, of 1] by (simp add: enzyme_cells_eq)
  have c2: "?r ! (3 + 3 * k + 2) = snd (enzyme_distances (snd (enzyme_positions ! k)) chromosome position)"
    using row_data_nth [OF assms, of 2] by (simp add: enzyme_cells_eq)
  have up: "(case map_of (snd (enzyme_positions ! k)) chromosome of
             None \<Rightarrow> True
           | Some ps \<Rightarrow> fst (find_closest ps position) = None)
          \<longrightarrow> map csv_field ?r ! (3 + 3 * k + 1) = ''N/A''"
    using absent_cells(1) [where chroms = "snd (enzyme_positions ! k)" and chromosome = chromosome and position = position]
    by (simp only: nth_map [OF i1] c1) blast
  have down: "(case map_of (snd (enzyme_positions ! k)) chromosome of
             None \<Rightarrow> True
           | Some ps \<Rightarrow> snd (find_closest ps position) = None)
          \<longrightarrow> map csv_field ?r ! (3 + 3 * k + 2) = ''N/A''"
    using absent_cells(2) [where chroms = "snd (enzyme_positions ! k)" and chromosome = chromosome and position = position]
    by (simp only: nth_map [OF i2] c2) blast
  have wr: "results \<noteq> [] \<longrightarrow>
            files (write_results results filename w) filename =
              Some (results_header (hd results) # map (map csv_field) results)"
    by (cases results) (simp_all add: write_results_def print_def)
  have rd: "key \<noteq> [] \<and> row key = Some (Some cell) \<longrightarrow>
            (final_distance row lengths enzyme direction_type (Some key) = Inr (PyStr ''N/A''))
              = (cell = ''N/A'')"
    by (auto simp: final_distance_def split: option.splits sum.splits)
  from up down wr rd show ?thesis by blast
qed

theorem absent_distance_token_witness:
  "map csv_field (row_data [(''EcoRI'', [(''chr1'', [100, 500])])] ''site1'' ''chr1'' 100) ! 4 = ''N/A''
   \<and> map csv_field (row_data [(''EcoRI'', [(''chr1'', [100, 500])])] ''site1'' ''chr2'' 100) ! 5 = ''N/A''
   \<and> files (write_results [[PyStr ''site1'', PyStr ''chr1'', PyInt 100, PyStr ''EcoRI'', PyStr ''N/A'', PyInt 400]]
              ''out.csv'' exact_match_world) ''out.csv''
       = Some [[''IntegrationSite#'', ''Chromosome'', ''Position'', ''EcoRI UpstreamDist'', ''EcoRI DownstreamDist''],
               [''site1'', ''chr1'', ''100'', ''EcoRI'', ''N/A'', ''400'']]
   \<and> final_distance [''EcoRI UpstreamDist'' \<mapsto> Some ''N/A''] [(Some ''EcoRI'', [(''L'', 50), (''H'', - 10)])]
        (Some ''EcoRI'') ''L'' (Some ''EcoRI UpstreamDist'') = Inr (PyStr ''N/A'')"
proof -
  have k: "0 < length [(''EcoRI'', [(''chr1'', [100, 500 :: int])])]" by simp
  have f: "find_closest [100, 500] 100 = (None, Some 500)" by code_simp
  have h: "results_header [PyStr ''site1'', PyStr ''chr1'', PyInt 100, PyStr ''EcoRI'', PyStr ''N/A'', PyInt 400]
        = [''IntegrationSite#'', ''Chromosome'', ''Position'', ''EcoRI UpstreamDist'', ''EcoRI DownstreamDist'']"
    by code_simp
  have s: "str_int 100 = ''100''" "str_int 400 = ''400''" by code_simp+
  show ?thesis
    using absent_distance_token [OF k, where chromosome = "''chr1''" and position = 100
        and site_id = "''site1''"
        and results = "[[PyStr ''site1'', PyStr ''chr1'', PyInt 100, PyStr ''EcoRI'', PyStr ''N/A'', PyInt 400]]"
        and filename = "''out.csv''" and w = exact_match_world and key = "''EcoRI UpstreamDist''"
        and row = "[''EcoRI UpstreamDist'' \<mapsto> Some ''N/A'']" and cell = "''N/A''"
        and lengths = "[(Some ''EcoRI'', [(''L'', 50), (''H'', - 10)])]" and enzyme = "Some ''EcoRI''"
        and direction_type = "''L''"]
      absent_distance_token [OF k, where chromosome = "''chr2''" and position = 100
        and site_id = "''site1''"]
    by (simp add: f h s)
qed

text \<open>
  The token is not the string \<^verbatim>\<open>not available\<close>: for the integration site at 100, which has
  no upstream site, stage 1 writes \<^verbatim>\<open>N/A\<close>.
\<close>

theorem absent_distance_token_counterexample:
  "fst (find_closest [100, 500] 100) = None
   \<and> files (projr (main_calc_distances ''enzymes.csv'' ''sites.csv'' ''out.csv'' exact_match_world)) ''out.csv''
       = Some [[''IntegrationSite#'', ''Chromosome'', ''Position'', ''EcoRI UpstreamDist'', ''EcoRI DownstreamDist''],
               [''site1'', ''chr1'', ''100'', ''EcoRI'', ''N/A'', ''400'']]
   \<and> the (files (projr (main_calc_distances ''enzymes.csv'' ''sites.csv'' ''out.csv'' exact_match_world)) ''out.csv'')
         ! 1 ! 4 \<noteq> ''not available''"
  by code_simp

subsection \<open>A field that is not an integer ends the run\<close>

lemma read_enzyme_rows_bad:
  "row \<in> set rows \<Longrightarrow> length row = 3 \<Longrightarrow> py_int (row ! 2) = None
     \<Longrightarrow> read_enzyme_rows rows ep w = Inl ValueError"
proof (induction rows arbitrary: ep w)
  case Nil
  then show ?case by simp
next
  case (Cons r rows)
  show ?case
  proof (cases "r = row")
    case True
    with Cons.prems show ?thesis by simp
  next
    case False
    with Cons.prems have "row \<in> set rows" by simp
    then have "\<And>ep w. read_enzyme_rows rows ep w = Inl ValueError"
      using Cons.IH Cons.prems(2,3) by blast
    then show ?thesis by (simp add: Let_def split: option.splits)
  qed
qed

lemma read_enzyme_rows_error:
  "read_enzyme_rows rows ep w = Inl e \<Longrightarrow> e = ValueError"
  by (induction rows arbitrary: ep w) (auto simp: Let_def split: if_splits option.splits)

lemma calculate_rows_bad:
  "row \<in> set rows \<Longrightarrow> length row = 3 \<Longrightarrow> py_int (row ! 2) = None
     \<Longrightarrow> calculate_rows ep rows results w = Inl ValueError"
proof (induction rows arbitrary: results w)
  case Nil
  then show ?case by simp
next
  case (Cons r rows)
  show ?case
  proof (cases "r = row")
    case True
    with Cons.prems show ?thesis by simp
  next
    case False
    with Cons.prems have "row \<in> set rows" by simp
    then have "\<And>results w. calculate_rows ep rows results w = Inl ValueError"
      using Cons.IH Cons.prems(2,3) by blast
    then show ?thesis by (simp add: Let_def split: option.splits)
  qed
qed

lemma dict_row_present:
  assumes "k \<in> set fieldnames"
  shows "dict_row fieldnames row k \<noteq> None"
proof -
  let ?cells = "map Some row @ replicate (length fieldnames - length row) None"
  have "length fieldnames \<le> length ?cells" by simp
  then have "map fst (zip fieldnames ?cells) = fieldnames"
    by (simp add: map_fst_zip_take)
  then have "k \<in> fst ` set (rev (zip fieldnames ?cells))"
    using assms by (metis set_map set_rev)
  then show ?thesis
    unfolding dict_row_def by (simp only: map_of_eq_None_iff not_not)
qed

lemma int_of_field_error:
  "int_of_field cell = Inl e \<Longrightarrow> e = ValueError \<or> e = TypeError"
  by (cases cell) (auto split: option.splits)

lemma read_length_rows_bad:
  assumes "\<forall>r \<in> set rs. r ''Name'' \<noteq> None \<and> r ''L'' \<noteq> None \<and> r ''H'' \<noteq> None"
    and "r \<in> set rs"
    and "(\<exists>l. r ''L'' = Some (Some l) \<and> py_int l = None) \<or> (\<exists>h. r ''H'' = Some (Some h) \<and> py_int h = None)"
  shows "\<exists>e. (e = ValueError \<or> e = TypeError) \<and> read_length_rows rs acc = Inl e"
  using assms
proof (induction rs arbitrary: acc)
  case Nil
  then show ?case by simp
next
  case (Cons x rs)
  from Cons.prems(1) obtain n l h where x: "x ''Name'' = Some n" "x ''L'' = Some l" "x ''H'' = Some h"
    by auto
  show ?case
  proof (cases "\<exists>li hi. int_of_field l = Inr li \<and> int_of_field h = Inr hi")
    case True
    then obtain li hi where ok: "int_of_field l = Inr li" "int_of_field h = Inr hi" by blast
    have "x \<noteq> r"
    proof
      assume "x = r"
      with Cons.prems(3) x ok show False by (auto split: option.splits)
    qed
    with Cons.prems have "r \<in> set rs" by simp
    with Cons.IH Cons.prems(1,3)
    have "\<exists>e. (e = ValueError \<or> e = TypeError)
            \<and> read_length_rows rs (AList.update n [(''L'', li), (''H'', hi)] acc) = Inl e"
      by simp
    then show ?thesis using x ok by (simp add: row_get_def)
  next
    case False
    then show ?thesis using x
      by (auto simp: row_get_def split: sum.splits dest: int_of_field_error)
  qed
qed

lemma read_length_rows_bad_value:
  assumes "\<forall>r \<in> set rs. r ''Name'' \<noteq> None \<and> (\<exists>l. r ''L'' = Some (Some l)) \<and> (\<exists>h. r ''H'' = Some (Some h))"
    and "r \<in> set rs"
    and "(\<exists>l. r ''L'' = Some (Some l) \<and> py_int l = None) \<or> (\<exists>h. r ''H'' = Some (Some h) \<and> py_int h = None)"
  shows "read_length_rows rs acc = Inl ValueError"
proof -
  have "\<And>e. read_length_rows rs acc = Inl e \<Longrightarrow> e = ValueError"
    using assms(1)
  proof (induction rs arbitrary: acc)
    case Nil
    then show ?case by simp
  next
    case (Cons x rs)
    from Cons.prems(2) obtain n l h where x: "x ''Name'' = Some n" "x ''L'' = Some (Some l)" "x ''H'' = Some (Some h)"
      by auto
    from Cons.prems(1) Cons.IH Cons.prems(2) show ?case using x
      by (auto simp: row_get_def split: sum.splits option.splits)
  qed
  moreover have "\<exists>e. (e = ValueError \<or> e = TypeError) \<and> read_length_rows rs acc = Inl e"
    using assms by (intro read_length_rows_bad) auto
  ultimately show ?thesis by auto
qed


lemma dict_row_three:
  assumes "3 \<le> length r"
  shows "dict_row [''Name'', ''L'', ''H''] r ''Name'' = Some (Some (r ! 0))"
    and "dict_row [''Name'', ''L'', ''H''] r ''L'' = Some (Some (r ! 1))"
    and "dict_row [''Name'', ''L'', ''H''] r ''H'' = Some (Some (r ! 2))"
proof -
  from assms obtain a b c rest where "r = a # b # c # rest"
    by (auto simp: Suc_le_length_iff numeral_3_eq_3)
  then show "dict_row [''Name'', ''L'', ''H''] r ''Name'' = Some (Some (r ! 0))"
    and "dict_row [''Name'', ''L'', ''H''] r ''L'' = Some (Some (r ! 1))"
    and "dict_row [''Name'', ''L'', ''H''] r ''H'' = Some (Some (r ! 2))"
    by (simp_all add: dict_row_def)
qed

text \<open>
  Claim C8. A field is not a valid integer when \<^verbatim>\<open>int\<close> raises \<^verbatim>\<open>ValueError\<close> on it, that is,
  when \<open>py_int\<close> gives \<open>None\<close>. A row of three fields whose third field is such makes
  \<open>read_enzyme_positions\<close>, and \<open>calculate_distances\<close>, raise \<^verbatim>\<open>ValueError\<close>, whatever rows
  stand before or after it, and the \<^verbatim>\<open>calc-distances\<close> command ends with that error: the
  row is not skipped. The same holds for an offset: in a lengths file under the header
  \<^verbatim>\<open>Name,L,H\<close>, a row of three fields whose \<^verbatim>\<open>L\<close> or \<^verbatim>\<open>H\<close> field \<^verbatim>\<open>int\<close> rejects makes
  \<open>read_fragment_lengths\<close> and the \<^verbatim>\<open>finalize-distances\<close> command end with an error of
  \<^verbatim>\<open>int\<close>; it is \<^verbatim>\<open>ValueError\<close> when no row of the file is shorter than the header (for a
  shorter row \<^verbatim>\<open>int(None)\<close> raises \<^verbatim>\<open>TypeError\<close>, possibly first).
\<close>

theorem non_integer_field_aborts:
  "(length row = 3 \<and> py_int (row ! 2) = None \<and> row \<in> set rows \<and> files w enzyme_file = Some rows \<longrightarrow>
      read_enzyme_positions enzyme_file w = Inl ValueError
      \<and> main_calc_distances enzyme_file integration_file output_file w = Inl ValueError)
   \<and> (length row = 3 \<and> py_int (row ! 2) = None \<and> row \<in> set rows \<and> files w integration_file = Some rows \<longrightarrow>
      calculate_distances enzyme_positions integration_file w = Inl ValueError
      \<and> (files w enzyme_file \<noteq> None \<longrightarrow>
           main_calc_distances enzyme_file integration_file output_file w = Inl ValueError))
   \<and> ((py_int l = None \<or> py_int h = None) \<and> [name, l, h] \<in> set body
        \<and> files w lengths_file = Some ([''Name'', ''L'', ''H''] # body) \<longrightarrow>
      (\<exists>e. (e = ValueError \<or> e = TypeError)
           \<and> read_fragment_lengths lengths_file w = Inl e
           \<and> main_finalize_distances list_of lengths_file directions_file distances_file output_file w = Inl e)
      \<and> ((\<forall>r \<in> set body. r = [] \<or> 3 \<le> length r) \<longrightarrow>
           read_fragment_lengths lengths_file w = Inl ValueError))"
proof (intro conjI impI)
  assume a: "length row = 3 \<and> py_int (row ! 2) = None \<and> row \<in> set rows \<and> files w enzyme_file = Some rows"
  then have "read_enzyme_rows rows [] w = Inl ValueError"
    by (intro read_enzyme_rows_bad [of row]) simp_all
  with a show "read_enzyme_positions enzyme_file w = Inl ValueError"
    by (simp add: read_enzyme_positions_def)
  then show "main_calc_distances enzyme_file integration_file output_file w = Inl ValueError"
    by (simp add: main_calc_distances_def)
next
  assume a: "length row = 3 \<and> py_int (row ! 2) = None \<and> row \<in> set rows \<and> files w integration_file = Some rows"
  then have bad: "\<And>ep w'. calculate_rows ep rows [] w' = Inl ValueError"
    by (intro calculate_rows_bad [of row]) simp_all
  with a show "calculate_distances enzyme_positions integration_file w = Inl ValueError"
    by (simp add: calculate_distances_def)
  assume "files w enzyme_file \<noteq> None"
  then obtain erows where e: "files w enzyme_file = Some erows" by blast
  show "main_calc_distances enzyme_file integration_file output_file w = Inl ValueError"
  proof (cases "read_enzyme_positions enzyme_file w")
    case (Inl err)
    then have "err = ValueError" using e
      by (auto simp: read_enzyme_positions_def split: sum.splits dest: read_enzyme_rows_error)
    with Inl show ?thesis by (simp add: main_calc_distances_def)
  next
    case (Inr res)
    obtain ep w1 where res: "res = (ep, w1)" by (cases res)
    with Inr have "files w1 = files w" by (auto dest: read_enzyme_positions_files)
    with a have "calculate_distances ep integration_file w1 = Inl ValueError"
      using bad by (simp add: calculate_distances_def)
    with Inr res show ?thesis by (simp add: main_calc_distances_def)
  qed
next
  let ?hs = "[''Name'', ''L'', ''H'']"
  let ?rs = "map (dict_row ?hs) (filter (\<lambda>row. row \<noteq> []) body)"
  assume a: "(py_int l = None \<or> py_int h = None) \<and> [name, l, h] \<in> set body
        \<and> files w lengths_file = Some (?hs # body)"
  have rd: "read_fragment_lengths lengths_file w = read_length_rows ?rs []"
    using a by (simp add: read_fragment_lengths_def dict_reader_def)
  have present: "\<forall>r \<in> set ?rs. r ''Name'' \<noteq> None \<and> r ''L'' \<noteq> None \<and> r ''H'' \<noteq> None"
  proof -
    have "\<And>r k. k \<in> set ?hs \<Longrightarrow> \<exists>y. dict_row ?hs r k = Some y"
      using dict_row_present by blast
    then show ?thesis by simp
  qed
  have mem: "dict_row ?hs [name, l, h] \<in> set ?rs" using a by auto
  have cells: "dict_row ?hs [name, l, h] ''L'' = Some (Some l)" "dict_row ?hs [name, l, h] ''H'' = Some (Some h)"
    by (simp_all add: dict_row_def)
  have bad: "(\<exists>l'. dict_row ?hs [name, l, h] ''L'' = Some (Some l') \<and> py_int l' = None)
           \<or> (\<exists>h'. dict_row ?hs [name, l, h] ''H'' = Some (Some h') \<and> py_int h' = None)"
    using a cells by auto
  from read_length_rows_bad [OF present mem bad, of "[]"]
  obtain e where e: "e = ValueError \<or> e = TypeError" "read_length_rows ?rs [] = Inl e" by blast
  then show "\<exists>e. (e = ValueError \<or> e = TypeError)
           \<and> read_fragment_lengths lengths_file w = Inl e
           \<and> main_finalize_distances list_of lengths_file directions_file distances_file output_file w = Inl e"
    using rd by (auto simp: main_finalize_distances_def)
  assume shape: "\<forall>r \<in> set body. r = [] \<or> 3 \<le> length r"
  have "\<forall>r \<in> set ?rs. r ''Name'' \<noteq> None \<and> (\<exists>l. r ''L'' = Some (Some l)) \<and> (\<exists>h. r ''H'' = Some (Some h))"
    using shape by (auto simp: dict_row_three)
  from read_length_rows_bad_value [OF this mem bad, of "[]"]
  show "read_fragment_lengths lengths_file w = Inl ValueError" using rd by simp
qed

theorem non_integer_field_aborts_witness:
  "read_enzyme_positions ''enzymes.csv'' bad_number_world = Inl ValueError
   \<and> main_calc_distances ''enzymes.csv'' ''sites.csv'' ''out.csv'' bad_number_world = Inl ValueError
   \<and> calculate_distances [] ''sites.csv'' bad_number_world = Inl ValueError
   \<and> main_calc_distances ''good_enzymes.csv'' ''sites.csv'' ''out.csv'' bad_number_world = Inl ValueError
   \<and> read_fragment_lengths ''lengths.csv'' bad_number_world = Inl ValueError
   \<and> read_enzyme_positions ''separator.csv'' bad_number_world = Inl ValueError"
proof -
  have p: "py_int ''1e3'' = None" "py_int ''12.5'' = None" "py_int ''high'' = None"
    "py_int [CHR 0x1C, CHR ''5''] = None"
    by code_simp+
  have f: "files bad_number_world ''enzymes.csv'' = Some [[''EcoRI'', ''chr1'', ''100''], [''EcoRI'', ''chr1'', ''1e3'']]"
    "files bad_number_world ''sites.csv'' = Some [[''site0''], [''site1'', ''chr1'', ''12.5'']]"
    "files bad_number_world ''lengths.csv'' = Some [[''Name'', ''L'', ''H''], [''EcoRI'', ''50'', ''high'']]"
    "files bad_number_world ''good_enzymes.csv'' \<noteq> None"
    "files bad_number_world ''separator.csv'' = Some [[''EcoRI'', ''chr1'', [CHR 0x1C, CHR ''5'']]]"
    by (simp_all add: bad_number_world_def)
  note t1 = non_integer_field_aborts [where row = "[''EcoRI'', ''chr1'', ''1e3'']"
      and rows = "[[''EcoRI'', ''chr1'', ''100''], [''EcoRI'', ''chr1'', ''1e3'']]"
      and w = bad_number_world and enzyme_file = "''enzymes.csv''" and integration_file = "''sites.csv''"
      and output_file = "''out.csv''" and l = "''50''" and h = "''high''" and name = "''EcoRI''"
      and body = "[[''EcoRI'', ''50'', ''high'']]" and lengths_file = "''lengths.csv''"
      and directions_file = "''directions.csv''" and distances_file = "''out.csv''"]
  note t2 = non_integer_field_aborts [where row = "[''site1'', ''chr1'', ''12.5'']"
      and rows = "[[''site0''], [''site1'', ''chr1'', ''12.5'']]"
      and w = bad_number_world and enzyme_file = "''good_enzymes.csv''" and integration_file = "''sites.csv''"
      and output_file = "''out.csv''" and enzyme_positions = "[]"]
  have a: "read_enzyme_positions ''enzymes.csv'' bad_number_world = Inl ValueError
      \<and> main_calc_distances ''enzymes.csv'' ''sites.csv'' ''out.csv'' bad_number_world = Inl ValueError"
    using t1 by (simp add: p f)
  have b: "calculate_distances [] ''sites.csv'' bad_number_world = Inl ValueError
      \<and> main_calc_distances ''good_enzymes.csv'' ''sites.csv'' ''out.csv'' bad_number_world = Inl ValueError"
    using t2 by (simp add: p f)
  have c: "read_fragment_lengths ''lengths.csv'' bad_number_world = Inl ValueError"
    using t1 by (simp add: p f)
  have d: "read_enzyme_positions ''separator.csv'' bad_number_world = Inl ValueError"
    using non_integer_field_aborts [where row = "[''EcoRI'', ''chr1'', [CHR 0x1C, CHR ''5'']]"
        and rows = "[[''EcoRI'', ''chr1'', [CHR 0x1C, CHR ''5'']]]"
        and w = bad_number_world and enzyme_file = "''separator.csv''"]
    by (simp add: p f)
  from a b c d show ?thesis by simp
qed

text \<open>A position that \<^verbatim>\<open>int\<close> accepts after dropping a no-break space is read, not refused.\<close>

lemma no_break_space_position_read:
  "map_sum id fst (read_enzyme_positions ''nbsp.csv'' bad_number_world) = Inr [(''EcoRI'', [(''chr1'', [100])])]"
  by code_simp

subsection \<open>Rows without exactly three fields change nothing but the log\<close>

lemma files_without_malformed:
  "files (without_malformed path w) p =
     (if p = path then map_option (filter (\<lambda>row. length row = 3)) (files w p) else files w p)"
  by (simp add: without_malformed_def)

lemma read_enzyme_rows_filter:
  "map_sum id fst (read_enzyme_rows (filter (\<lambda>row. length row = 3) rows) ep w')
     = map_sum id fst (read_enzyme_rows rows ep w)"
  by (induction rows arbitrary: ep w w') (auto simp: Let_def split: option.splits)

lemma calculate_rows_filter:
  "map_sum id fst (calculate_rows ep (filter (\<lambda>row. length row = 3) rows) results w')
     = map_sum id fst (calculate_rows ep rows results w)"
  by (induction rows arbitrary: results w w') (auto simp: Let_def split: option.splits)

lemma read_enzyme_rows_stdout:
  "read_enzyme_rows rows ep w = Inr (ep', w')
     \<Longrightarrow> stdout w' = stdout w @ map Warning_enzyme_row (filter (\<lambda>row. length row \<noteq> 3) rows)"
  by (induction rows arbitrary: ep w) (auto simp: Let_def split: if_splits option.splits)

lemma calculate_rows_stdout:
  "calculate_rows ep rows results w = Inr (results', w')
     \<Longrightarrow> stdout w' = stdout w @ map Warning_integration_row (filter (\<lambda>row. length row \<noteq> 3) rows)"
  by (induction rows arbitrary: results w) (auto simp: Let_def split: if_splits option.splits)

lemma read_enzyme_positions_filter:
  assumes "files w' enzyme_file = map_option (filter (\<lambda>row. length row = 3)) (files w enzyme_file)"
  shows "map_sum id fst (read_enzyme_positions enzyme_file w') = map_sum id fst (read_enzyme_positions enzyme_file w)"
proof (cases "files w enzyme_file")
  case None
  then show ?thesis using assms by (simp add: read_enzyme_positions_def)
next
  case (Some rows)
  have "map_sum id fst (read_enzyme_rows (filter (\<lambda>row. length row = 3) rows) [] w')
     = map_sum id fst (read_enzyme_rows rows [] w)"
    by (rule read_enzyme_rows_filter)
  then show ?thesis using Some assms
    by (auto simp: read_enzyme_positions_def split: sum.splits)
qed

lemma calculate_distances_filter:
  assumes "files w' integration_file = map_option (filter (\<lambda>row. length row = 3)) (files w integration_file)"
  shows "map_sum id fst (calculate_distances ep integration_file w') = map_sum id fst (calculate_distances ep integration_file w)"
proof (cases "files w integration_file")
  case None
  then show ?thesis using assms by (simp add: calculate_distances_def)
next
  case (Some rows)
  then show ?thesis using assms calculate_rows_filter [of ep rows "[]" w' w]
    by (simp add: calculate_distances_def)
qed

lemma files_write_results:
  "files (write_results results output_file w) p =
     (if results \<noteq> [] \<and> p = output_file
      then Some (results_header (hd results) # map (map csv_field) results)
      else files w p)"
  by (cases results) (simp_all add: write_results_def print_def)

text \<open>
  Claim C7. Removing from the enzyme file, from the integration file, or from both, the
  rows that do not have exactly three fields changes neither the index
  \<open>read_enzyme_positions\<close> returns, nor the results \<open>calculate_distances\<close> returns, nor the
  error either raises, nor (for an output path other than the two inputs) the file the
  \<^verbatim>\<open>calc-distances\<close> command leaves at the output path. Each such row adds one warning to
  the printed lines, in the order of the rows.
\<close>

theorem malformed_rows_ignored:
  "map_sum id fst (read_enzyme_positions enzyme_file (without_malformed enzyme_file w))
     = map_sum id fst (read_enzyme_positions enzyme_file w)
   \<and> map_sum id fst (calculate_distances ep integration_file (without_malformed integration_file w))
     = map_sum id fst (calculate_distances ep integration_file w)
   \<and> (output_file \<noteq> enzyme_file \<and> output_file \<noteq> integration_file \<longrightarrow>
        map_sum id (\<lambda>v. files v output_file)
          (main_calc_distances enzyme_file integration_file output_file
             (without_malformed enzyme_file (without_malformed integration_file w)))
        = map_sum id (\<lambda>v. files v output_file)
            (main_calc_distances enzyme_file integration_file output_file w))
   \<and> (files w enzyme_file = Some rows \<and> read_enzyme_positions enzyme_file w = Inr (ep', w1) \<longrightarrow>
        stdout w1 = stdout w @ map Warning_enzyme_row (filter (\<lambda>row. length row \<noteq> 3) rows))
   \<and> (files w integration_file = Some rows \<and> calculate_distances ep integration_file w = Inr (results, w2) \<longrightarrow>
        stdout w2 = stdout w @ map Warning_integration_row (filter (\<lambda>row. length row \<noteq> 3) rows))"
proof (intro conjI impI)
  show "map_sum id fst (read_enzyme_positions enzyme_file (without_malformed enzyme_file w))
     = map_sum id fst (read_enzyme_positions enzyme_file w)"
    by (rule read_enzyme_positions_filter) (simp add: files_without_malformed)
  show "map_sum id fst (calculate_distances ep integration_file (without_malformed integration_file w))
     = map_sum id fst (calculate_distances ep integration_file w)"
    by (rule calculate_distances_filter) (simp add: files_without_malformed)
next
  assume "files w enzyme_file = Some rows \<and> read_enzyme_positions enzyme_file w = Inr (ep', w1)"
  then show "stdout w1 = stdout w @ map Warning_enzyme_row (filter (\<lambda>row. length row \<noteq> 3) rows)"
    by (auto simp: read_enzyme_positions_def split: sum.splits dest: read_enzyme_rows_stdout)
next
  assume "files w integration_file = Some rows \<and> calculate_distances ep integration_file w = Inr (results, w2)"
  then show "stdout w2 = stdout w @ map Warning_integration_row (filter (\<lambda>row. length row \<noteq> 3) rows)"
    by (auto simp: calculate_distances_def dest: calculate_rows_stdout)
next
  let ?ok = "\<lambda>row :: string list. length row = 3"
  let ?w' = "without_malformed enzyme_file (without_malformed integration_file w)"
  assume out: "output_file \<noteq> enzyme_file \<and> output_file \<noteq> integration_file"
  have idem: "\<And>x. map_option (filter ?ok) (map_option (filter ?ok) x) = map_option (filter ?ok) x"
    by (simp add: option.map_comp comp_def)
  have fe: "files ?w' enzyme_file = map_option (filter ?ok) (files w enzyme_file)"
    and fi: "files ?w' integration_file = map_option (filter ?ok) (files w integration_file)"
    and fo: "files ?w' output_file = files w output_file"
    using out by (simp_all add: files_without_malformed idem)
  have r: "map_sum id fst (read_enzyme_positions enzyme_file ?w')
         = map_sum id fst (read_enzyme_positions enzyme_file w)"
    using fe by (rule read_enzyme_positions_filter)
  show "map_sum id (\<lambda>v. files v output_file)
          (main_calc_distances enzyme_file integration_file output_file ?w')
        = map_sum id (\<lambda>v. files v output_file)
            (main_calc_distances enzyme_file integration_file output_file w)"
  proof (cases "read_enzyme_positions enzyme_file w")
    case (Inl e)
    with r have "read_enzyme_positions enzyme_file ?w' = Inl e"
      by (cases "read_enzyme_positions enzyme_file ?w'") simp_all
    with Inl show ?thesis by (simp add: main_calc_distances_def)
  next
    case (Inr a)
    obtain index u where a: "a = (index, u)" by (cases a)
    from r Inr a obtain u' where r': "read_enzyme_positions enzyme_file ?w' = Inr (index, u')"
      by (cases "read_enzyme_positions enzyme_file ?w'") auto
    have fu: "files u = files w" using Inr a by (auto dest: read_enzyme_positions_files)
    have fu': "files u' = files ?w'" using r' by (rule read_enzyme_positions_files)
    have "files u' integration_file = map_option (filter ?ok) (files u integration_file)"
      using fu fu' fi by simp
    then have c: "map_sum id fst (calculate_distances index integration_file u')
                = map_sum id fst (calculate_distances index integration_file u)"
      by (rule calculate_distances_filter)
    show ?thesis
    proof (cases "calculate_distances index integration_file u")
      case (Inl e)
      with c have "calculate_distances index integration_file u' = Inl e"
        by (cases "calculate_distances index integration_file u'") simp_all
      with Inl Inr a r' show ?thesis by (simp add: main_calc_distances_def)
    next
      case (Inr b)
      obtain res v where b: "b = (res, v)" by (cases b)
      from c Inr b obtain v' where c': "calculate_distances index integration_file u' = Inr (res, v')"
        by (cases "calculate_distances index integration_file u'") auto
      have "files v = files w" using Inr b fu by (auto dest: calculate_distances_files)
      moreover have "files v' = files ?w'" using c' fu' by (auto dest: calculate_distances_files)
      ultimately have "files (write_results res output_file v') output_file
                     = files (write_results res output_file v) output_file"
        using fo by (simp add: files_write_results)
      with Inr b c' r' \<open>read_enzyme_positions enzyme_file w = Inr a\<close> a show ?thesis
        by (simp add: main_calc_distances_def)
    qed
  qed
qed

theorem malformed_rows_ignored_witness:
  "files (projr (main_calc_distances ''enzymes.csv'' ''sites.csv'' ''out.csv'' interleaved_world)) ''out.csv''
     = Some [[''IntegrationSite#'', ''Chromosome'', ''Position'', ''EcoRI UpstreamDist'', ''EcoRI DownstreamDist''],
             [''site1'', ''chr1'', ''300'', ''EcoRI'', ''200'', ''N/A'']]
   \<and> files (projr (main_calc_distances ''enzymes.csv'' ''sites.csv'' ''out.csv''
         (without_malformed ''enzymes.csv'' (without_malformed ''sites.csv'' interleaved_world)))) ''out.csv''
     = Some [[''IntegrationSite#'', ''Chromosome'', ''Position'', ''EcoRI UpstreamDist'', ''EcoRI DownstreamDist''],
             [''site1'', ''chr1'', ''300'', ''EcoRI'', ''200'', ''N/A'']]
   \<and> stdout (snd (projr (read_enzyme_positions ''enzymes.csv'' interleaved_world)))
     = [Warning_enzyme_row [''EcoRI''], Warning_enzyme_row [], Warning_enzyme_row [''EcoRI'', ''chr1'', ''500'', ''x'']]
   \<and> stdout (snd (projr (calculate_distances [] ''sites.csv'' interleaved_world)))
     = [Warning_integration_row [''site0'', ''chr1'']]"
proof -
  have p: "py_int ''300'' = Some 300" by code_simp
  have m: "files (projr (main_calc_distances ''enzymes.csv'' ''sites.csv'' ''out.csv'' interleaved_world)) ''out.csv''
     = Some [[''IntegrationSite#'', ''Chromosome'', ''Position'', ''EcoRI UpstreamDist'', ''EcoRI DownstreamDist''],
             [''site1'', ''chr1'', ''300'', ''EcoRI'', ''200'', ''N/A'']]"
    by code_simp
  have isr: "\<not> isl (main_calc_distances ''enzymes.csv'' ''sites.csv'' ''out.csv'' interleaved_world)"
    by code_simp
  have isr': "\<not> isl (main_calc_distances ''enzymes.csv'' ''sites.csv'' ''out.csv''
         (without_malformed ''enzymes.csv'' (without_malformed ''sites.csv'' interleaved_world)))"
    by code_simp
  have e: "read_enzyme_positions ''enzymes.csv'' interleaved_world =
      Inr ([(''EcoRI'', [(''chr1'', [100])])],
           interleaved_world\<lparr>stdout := [Warning_enzyme_row [''EcoRI''], Warning_enzyme_row [],
              Warning_enzyme_row [''EcoRI'', ''chr1'', ''500'', ''x'']]\<rparr>)"
    by (simp add: read_enzyme_positions_def interleaved_world_def py_int_100 append_position_def
        sort_positions_def print_def)
  have c: "calculate_distances [] ''sites.csv'' interleaved_world =
      Inr ([[PyStr ''site1'', PyStr ''chr1'', PyInt 300]],
           interleaved_world\<lparr>stdout := [Warning_integration_row [''site0'', ''chr1'']]\<rparr>)"
    by (simp add: calculate_distances_def interleaved_world_def p row_data_def print_def)
  have f: "files interleaved_world ''enzymes.csv'' =
        Some [[''EcoRI''], [''EcoRI'', ''chr1'', ''100''], [], [''EcoRI'', ''chr1'', ''500'', ''x'']]"
    "files interleaved_world ''sites.csv'' = Some [[''site0'', ''chr1''], [''site1'', ''chr1'', ''300'']]"
    by (simp_all add: interleaved_world_def)
  note t = malformed_rows_ignored [where enzyme_file = "''enzymes.csv''" and integration_file = "''sites.csv''"
      and output_file = "''out.csv''" and w = interleaved_world]
  have eq: "map_sum id (\<lambda>v. files v ''out.csv'')
          (main_calc_distances ''enzymes.csv'' ''sites.csv'' ''out.csv''
             (without_malformed ''enzymes.csv'' (without_malformed ''sites.csv'' interleaved_world)))
        = map_sum id (\<lambda>v. files v ''out.csv'')
            (main_calc_distances ''enzymes.csv'' ''sites.csv'' ''out.csv'' interleaved_world)"
    using t by simp
  have same: "files (projr (main_calc_distances ''enzymes.csv'' ''sites.csv'' ''out.csv''
         (without_malformed ''enzymes.csv'' (without_malformed ''sites.csv'' interleaved_world)))) ''out.csv''
      = files (projr (main_calc_distances ''enzymes.csv'' ''sites.csv'' ''out.csv'' interleaved_world)) ''out.csv''"
    using eq isr isr'
    by (cases "main_calc_distances ''enzymes.csv'' ''sites.csv'' ''out.csv'' interleaved_world";
        cases "main_calc_distances ''enzymes.csv'' ''sites.csv'' ''out.csv''
         (without_malformed ''enzymes.csv'' (without_malformed ''sites.csv'' interleaved_world))") simp_all
  note warn_enzyme = malformed_rows_ignored [THEN conjunct2, THEN conjunct2, THEN conjunct2,
      THEN conjunct1, rule_format, OF conjI, OF f(1) e]
  note warn_site = malformed_rows_ignored [THEN conjunct2, THEN conjunct2, THEN conjunct2,
      THEN conjunct2, rule_format, OF conjI, OF f(2) c]
  have s1: "stdout (snd (projr (read_enzyme_positions ''enzymes.csv'' interleaved_world)))
     = [Warning_enzyme_row [''EcoRI''], Warning_enzyme_row [], Warning_enzyme_row [''EcoRI'', ''chr1'', ''500'', ''x'']]"
    using warn_enzyme by (simp add: e)
  have s2: "stdout (snd (projr (calculate_distances [] ''sites.csv'' interleaved_world)))
     = [Warning_integration_row [''site0'', ''chr1'']]"
    using warn_site by (simp add: c)
  from m same s1 s2 show ?thesis by simp
qed

subsection \<open>The loops of \<open>calculate_final_distances\<close>\<close>

lemma direction_key_inj:
  assumes "direction_key e s = direction_key e' t"
    and "s \<in> {''L'', ''H''}" and "t \<in> {''L'', ''H''}"
  shows "str_field e = str_field e' \<and> s = t"
proof -
  have "length (''_'' @ s) = length (''_'' @ t)" using assms(2,3) by auto
  moreover have "str_field e @ (''_'' @ s) = str_field e' @ (''_'' @ t)"
    using assms(1) by (simp add: direction_key_def)
  ultimately have "str_field e = str_field e' \<and> ''_'' @ s = ''_'' @ t"
    by (metis append_eq_append_conv)
  then show ?thesis by simp
qed

lemma direction_key_not_identity:
  assumes "t \<in> {''L'', ''H''}"
  shows "direction_key e t \<notin> {''IntegrationSite#'', ''Chromosome'', ''Position''}"
proof
  assume "direction_key e t \<in> {''IntegrationSite#'', ''Chromosome'', ''Position''}"
  then have "last (direction_key e t) \<in> {CHR ''#'', CHR ''e'', CHR ''n''}" by auto
  moreover have "last (direction_key e t) \<in> {CHR ''L'', CHR ''H''}"
    using assms by (auto simp: direction_key_def)
  ultimately show False by auto
qed

lemma final_distance_value:
  "final_distance row lengths enzyme direction_type key = Inr v
     \<Longrightarrow> v = PyStr ''N/A'' \<or> (\<exists>n. v = PyInt n)"
  by (auto simp: final_distance_def split: option.splits if_splits sum.splits)

lemma direction_step_Inr:
  assumes "direction_step row directions lengths site_id enzyme t st = Inr st'"
  obtains v where "final_value row directions lengths site_id enzyme t = Inr v"
    and "st' = (AList.update (direction_key enzyme t) v (fst st), insert (direction_key enzyme t) (snd st))"
  using assms by (auto simp: direction_step_def split: sum.splits)

lemma spec_keys_Nil [simp]: "spec_keys [] = {}"
  by (simp add: spec_keys_def)

lemma spec_keys_Cons:
  "spec_keys (e # es) = {direction_key e ''L'', direction_key e ''H''} \<union> spec_keys es"
  by (auto simp: spec_keys_def)

lemma direction_loop_LH:
  assumes "direction_loop row directions lengths site_id enzyme [''L'', ''H''] st = Inr st'"
  obtains vl vh where "final_value row directions lengths site_id enzyme ''L'' = Inr vl"
    and "final_value row directions lengths site_id enzyme ''H'' = Inr vh"
    and "fst st' = AList.update (direction_key enzyme ''H'') vh
                     (AList.update (direction_key enzyme ''L'') vl (fst st))"
    and "snd st' = insert (direction_key enzyme ''H'') (insert (direction_key enzyme ''L'') (snd st))"
proof -
  from assms obtain st1 where 1: "direction_step row directions lengths site_id enzyme ''L'' st = Inr st1"
    and 2: "direction_step row directions lengths site_id enzyme ''H'' st1 = Inr st'"
    by (auto split: sum.splits)
  from 1 obtain vl where vl: "final_value row directions lengths site_id enzyme ''L'' = Inr vl"
    and st1: "st1 = (AList.update (direction_key enzyme ''L'') vl (fst st), insert (direction_key enzyme ''L'') (snd st))"
    by (rule direction_step_Inr)
  from 2 obtain vh where vh: "final_value row directions lengths site_id enzyme ''H'' = Inr vh"
    and st': "st' = (AList.update (direction_key enzyme ''H'') vh (fst st1), insert (direction_key enzyme ''H'') (snd st1))"
    by (rule direction_step_Inr)
  show thesis using vl vh st1 st' by (intro that [of vl vh]) simp_all
qed

lemma enzyme_loop_fieldnames:
  "enzyme_loop row directions lengths site_id enzymes st = Inr st'
     \<Longrightarrow> snd st' = snd st \<union> spec_keys enzymes"
proof (induction enzymes arbitrary: st)
  case Nil
  then show ?case by simp
next
  case (Cons e es)
  from Cons.prems obtain st1 where 1: "direction_loop row directions lengths site_id e [''L'', ''H''] st = Inr st1"
    and 2: "enzyme_loop row directions lengths site_id es st1 = Inr st'"
    by (auto split: sum.splits)
  from 1 have "snd st1 = insert (direction_key e ''H'') (insert (direction_key e ''L'') (snd st))"
    by (rule direction_loop_LH)
  moreover from 2 have "snd st' = snd st1 \<union> spec_keys es" by (rule Cons.IH)
  ultimately show ?case by (auto simp: spec_keys_Cons)
qed

lemma enzyme_loop_keys:
  "enzyme_loop row directions lengths site_id enzymes st = Inr st'
     \<Longrightarrow> fst ` set (fst st') = fst ` set (fst st) \<union> spec_keys enzymes"
proof (induction enzymes arbitrary: st)
  case Nil
  then show ?case by simp
next
  case (Cons e es)
  from Cons.prems obtain st1 where 1: "direction_loop row directions lengths site_id e [''L'', ''H''] st = Inr st1"
    and 2: "enzyme_loop row directions lengths site_id es st1 = Inr st'"
    by (auto split: sum.splits)
  from 1 have "fst ` set (fst st1) = {direction_key e ''H'', direction_key e ''L''} \<union> fst ` set (fst st)"
    by (rule direction_loop_LH) (auto simp: AList.dom_update)
  moreover from 2 have "fst ` set (fst st') = fst ` set (fst st1) \<union> spec_keys es" by (rule Cons.IH)
  ultimately show ?case by (auto simp: spec_keys_Cons)
qed

lemma enzyme_loop_origin:
  "enzyme_loop row directions lengths site_id enzymes st = Inr st'
     \<Longrightarrow> map_of (fst st') k = Some v
     \<Longrightarrow> map_of (fst st) k = Some v
         \<or> (\<exists>e \<in> set enzymes. \<exists>t \<in> {''L'', ''H''}.
               k = direction_key e t \<and> final_value row directions lengths site_id e t = Inr v)"
proof (induction enzymes arbitrary: st)
  case Nil
  then show ?case by simp
next
  case (Cons e es)
  from Cons.prems(1) obtain st1 where 1: "direction_loop row directions lengths site_id e [''L'', ''H''] st = Inr st1"
    and 2: "enzyme_loop row directions lengths site_id es st1 = Inr st'"
    by (auto split: sum.splits)
  from Cons.IH [OF 2 Cons.prems(2)]
  consider (before) "map_of (fst st1) k = Some v"
    | (later) "\<exists>e \<in> set es. \<exists>t \<in> {''L'', ''H''}.
               k = direction_key e t \<and> final_value row directions lengths site_id e t = Inr v"
    by blast
  then show ?case
  proof cases
    case before
    from 1 obtain vl vh where vl: "final_value row directions lengths site_id e ''L'' = Inr vl"
      and vh: "final_value row directions lengths site_id e ''H'' = Inr vh"
      and st1: "fst st1 = AList.update (direction_key e ''H'') vh
                     (AList.update (direction_key e ''L'') vl (fst st))"
      by (rule direction_loop_LH)
    from before st1
    have upd: "((map_of (fst st))(direction_key e ''L'' \<mapsto> vl, direction_key e ''H'' \<mapsto> vh)) k = Some v"
      by (simp add: AList.update_conv')
    show ?thesis
    proof (cases "k = direction_key e ''H''")
      case True
      with upd have "v = vh" by simp
      with True vh show ?thesis by auto
    next
      case False
      note notH = this
      show ?thesis
      proof (cases "k = direction_key e ''L''")
        case True
        with upd notH have "v = vl" by simp
        with True vl show ?thesis by auto
      next
        case False
        with upd notH have "map_of (fst st) k = Some v" by simp
        then show ?thesis by simp
      qed
    qed
  next
    case later
    then show ?thesis by auto
  qed
qed


lemma final_row_Inr:
  assumes "final_row row directions lengths fieldnames = Inr (new_row, fieldnames')"
  obtains site_id chromosome position where "row ''IntegrationSite#'' = Some site_id"
    and "row ''Chromosome'' = Some chromosome" and "row ''Position'' = Some position"
    and "enzyme_loop row directions lengths site_id (map fst lengths)
           ([(''IntegrationSite#'', pyval_of_field site_id), (''Chromosome'', pyval_of_field chromosome),
             (''Position'', pyval_of_field position)], fieldnames) = Inr (new_row, fieldnames')"
  using assms by (auto simp: final_row_def row_get_def split: option.splits)

lemma final_row_fieldnames:
  assumes "final_row row directions lengths fieldnames = Inr (new_row, fieldnames')"
  shows "fieldnames' = fieldnames \<union> spec_keys (map fst lengths)"
  using assms by (rule final_row_Inr) (auto dest: enzyme_loop_fieldnames)

lemma final_row_keys:
  assumes "final_row row directions lengths fieldnames = Inr (new_row, fieldnames')"
  shows "fst ` set new_row = {''IntegrationSite#'', ''Chromosome'', ''Position''} \<union> spec_keys (map fst lengths)"
proof -
  from assms obtain site_id chromosome position where
    "enzyme_loop row directions lengths site_id (map fst lengths)
           ([(''IntegrationSite#'', pyval_of_field site_id), (''Chromosome'', pyval_of_field chromosome),
             (''Position'', pyval_of_field position)], fieldnames) = Inr (new_row, fieldnames')"
    by (rule final_row_Inr)
  from enzyme_loop_keys [OF this] show ?thesis by simp
qed

lemma final_row_entry:
  assumes "final_row row directions lengths fieldnames = Inr (new_row, fieldnames')"
    and "row ''IntegrationSite#'' = Some site_id"
    and "enzyme \<in> fst ` set lengths" and "t \<in> {''L'', ''H''}"
  shows "\<exists>v e' t'. map_of new_row (direction_key enzyme t) = Some v
           \<and> e' \<in> fst ` set lengths \<and> t' \<in> {''L'', ''H''}
           \<and> direction_key e' t' = direction_key enzyme t
           \<and> final_value row directions lengths site_id e' t' = Inr v"
proof -
  let ?k = "direction_key enzyme t"
  from assms(1) obtain sid chromosome position where sid: "row ''IntegrationSite#'' = Some sid"
    and loop: "enzyme_loop row directions lengths sid (map fst lengths)
           ([(''IntegrationSite#'', pyval_of_field sid), (''Chromosome'', pyval_of_field chromosome),
             (''Position'', pyval_of_field position)], fieldnames) = Inr (new_row, fieldnames')"
    by (rule final_row_Inr)
  from sid assms(2) have [simp]: "sid = site_id" by simp
  have "?k \<in> spec_keys (map fst lengths)" using assms(3,4) by (auto simp: spec_keys_def)
  then have "?k \<in> fst ` set new_row" using final_row_keys [OF assms(1)] by simp
  then obtain v where v: "map_of new_row ?k = Some v"
    by (metis map_of_eq_None_iff not_Some_eq)
  have notid: "?k \<notin> {''IntegrationSite#'', ''Chromosome'', ''Position''}"
    using assms(4) by (rule direction_key_not_identity)
  from enzyme_loop_origin [OF loop, of ?k v] v
  have "map_of [(''IntegrationSite#'', pyval_of_field sid), (''Chromosome'', pyval_of_field chromosome),
             (''Position'', pyval_of_field position)] ?k = Some v
         \<or> (\<exists>e \<in> set (map fst lengths). \<exists>t' \<in> {''L'', ''H''}.
               ?k = direction_key e t' \<and> final_value row directions lengths sid e t' = Inr v)"
    by simp
  moreover have "map_of [(''IntegrationSite#'', pyval_of_field sid), (''Chromosome'', pyval_of_field chromosome),
             (''Position'', pyval_of_field position)] ?k = None"
    using notid by (simp only: map_of_eq_None_iff) simp
  ultimately obtain e' t' where "e' \<in> fst ` set lengths" "t' \<in> {''L'', ''H''}"
    "?k = direction_key e' t'" "final_value row directions lengths site_id e' t' = Inr v"
    by auto
  with v show ?thesis by metis
qed

lemma final_rows_result:
  "final_rows rows directions lengths final_distances fieldnames = Inr (final_distances', fieldnames')
     \<Longrightarrow> fieldnames' = (if rows = [] then fieldnames else fieldnames \<union> spec_keys (map fst lengths))
         \<and> (\<exists>new. final_distances' = final_distances @ new \<and> length new = length rows
               \<and> (\<forall>record \<in> set new. \<exists>row \<in> set rows. \<exists>f f'.
                     final_row row directions lengths f = Inr (record, f')))"
proof (induction rows arbitrary: final_distances fieldnames)
  case Nil
  then show ?case by simp
next
  case (Cons row rows)
  from Cons.prems obtain new_row f1 where 1: "final_row row directions lengths fieldnames = Inr (new_row, f1)"
    and 2: "final_rows rows directions lengths (final_distances @ [new_row]) f1 = Inr (final_distances', fieldnames')"
    by (auto split: sum.splits)
  have f1: "f1 = fieldnames \<union> spec_keys (map fst lengths)" using 1 by (rule final_row_fieldnames)
  from Cons.IH [OF 2] obtain new where
    f': "fieldnames' = (if rows = [] then f1 else f1 \<union> spec_keys (map fst lengths))"
    and new: "final_distances' = (final_distances @ [new_row]) @ new" "length new = length rows"
      "\<forall>record \<in> set new. \<exists>row \<in> set rows. \<exists>f f'. final_row row directions lengths f = Inr (record, f')"
    by blast
  have "fieldnames' = fieldnames \<union> spec_keys (map fst lengths)" using f' f1 by auto
  moreover have "final_distances' = final_distances @ (new_row # new)" using new(1) by simp
  moreover have "length (new_row # new) = length (row # rows)" using new(2) by simp
  moreover have "\<forall>record \<in> set (new_row # new). \<exists>r \<in> set (row # rows). \<exists>f f'.
                     final_row r directions lengths f = Inr (record, f')"
    using 1 new(3) by auto
  ultimately show ?case by (simp del: set_simps)
qed

subsection \<open>The rule of the adjustment\<close>

lemma final_rows_indexed:
  "final_rows rows directions lengths final_distances fieldnames = Inr (final_distances', fieldnames')
     \<Longrightarrow> \<exists>new. final_distances' = final_distances @ new \<and> length new = length rows
           \<and> (\<forall>i < length rows. \<exists>f f'. final_row (rows ! i) directions lengths f = Inr (new ! i, f'))"
proof (induction rows arbitrary: final_distances fieldnames)
  case Nil
  then show ?case by simp
next
  case (Cons row rows)
  from Cons.prems obtain new_row f1 where 1: "final_row row directions lengths fieldnames = Inr (new_row, f1)"
    and 2: "final_rows rows directions lengths (final_distances @ [new_row]) f1 = Inr (final_distances', fieldnames')"
    by (auto split: sum.splits)
  from Cons.IH [OF 2] obtain new where
    new: "final_distances' = (final_distances @ [new_row]) @ new" "length new = length rows"
      "\<forall>i < length rows. \<exists>f f'. final_row (rows ! i) directions lengths f = Inr (new ! i, f')"
    by blast
  have "\<forall>i < length (row # rows). \<exists>f f'.
          final_row ((row # rows) ! i) directions lengths f = Inr ((new_row # new) ! i, f')"
  proof (intro allI impI)
    fix i
    assume "i < length (row # rows)"
    then show "\<exists>f f'. final_row ((row # rows) ! i) directions lengths f = Inr ((new_row # new) ! i, f')"
      using 1 new(3) by (cases i) auto
  qed
  moreover have "final_distances' = final_distances @ (new_row # new)" using new(1) by simp
  moreover have "length (new_row # new) = length (row # rows)" using new(2) by simp
  ultimately show ?case by blast
qed

lemma direction_loop_ok:
  assumes "final_value row directions lengths site_id enzyme ''L'' = Inr vl"
    and "final_value row directions lengths site_id enzyme ''H'' = Inr vh"
  shows "\<exists>st'. direction_loop row directions lengths site_id enzyme [''L'', ''H''] st = Inr st'"
  using assms by (simp add: direction_step_def)

lemma enzyme_loop_ok:
  "(\<forall>e \<in> set enzymes. \<forall>t \<in> {''L'', ''H''}. \<exists>v. final_value row directions lengths site_id e t = Inr v)
     \<Longrightarrow> \<exists>st'. enzyme_loop row directions lengths site_id enzymes st = Inr st'"
proof (induction enzymes arbitrary: st)
  case Nil
  then show ?case by simp
next
  case (Cons e es)
  from Cons.prems obtain vl vh where "final_value row directions lengths site_id e ''L'' = Inr vl"
    "final_value row directions lengths site_id e ''H'' = Inr vh"
    by auto
  then obtain st1 where 1: "direction_loop row directions lengths site_id e [''L'', ''H''] st = Inr st1"
    using direction_loop_ok by blast
  from Cons.prems have "\<forall>e \<in> set es. \<forall>t \<in> {''L'', ''H''}. \<exists>v. final_value row directions lengths site_id e t = Inr v"
    by simp
  from Cons.IH [OF this, of st1] obtain st' where "enzyme_loop row directions lengths site_id es st1 = Inr st'"
    by blast
  with 1 show ?case by simp
qed

lemma final_value_ok:
  assumes "readable_cell (row (str_field enzyme @ '' UpstreamDist''))"
    and "readable_cell (row (str_field enzyme @ '' DownstreamDist''))"
    and "map_of lengths enzyme = Some offsets" and "map_of offsets t = Some offset"
  shows "\<exists>v. final_value row directions lengths site_id enzyme t = Inr v"
proof (cases "dist_key enzyme (user_direction directions site_id (direction_key enzyme t))")
  case None
  then show ?thesis by (simp add: final_value_def final_distance_def)
next
  case (Some k)
  then have k: "k = str_field enzyme @ '' UpstreamDist'' \<or> k = str_field enzyme @ '' DownstreamDist''"
    by (auto simp: dist_key_def split: if_splits)
  then have "readable_cell (row k)" and "k \<noteq> []" using assms(1,2) by auto
  then show ?thesis using Some assms(3,4)
    by (auto simp: final_value_def final_distance_def readable_cell_def dict_get_def
        split: option.splits)
qed


lemma final_row_ok:
  assumes "row ''IntegrationSite#'' = Some site_id"
    and "row ''Chromosome'' \<noteq> None" and "row ''Position'' \<noteq> None"
    and "\<forall>e \<in> fst ` set lengths. \<forall>t \<in> {''L'', ''H''}.
           \<exists>v. final_value row directions lengths site_id e t = Inr v"
  shows "\<exists>new_row fieldnames'. final_row row directions lengths fieldnames = Inr (new_row, fieldnames')"
proof -
  from assms(2,3) obtain chromosome position where
    c: "row ''Chromosome'' = Some chromosome" and p: "row ''Position'' = Some position"
    by auto
  from assms(4) have "\<forall>e \<in> set (map fst lengths). \<forall>t \<in> {''L'', ''H''}.
           \<exists>v. final_value row directions lengths site_id e t = Inr v"
    by simp
  from enzyme_loop_ok [OF this] obtain st' where
    "enzyme_loop row directions lengths site_id (map fst lengths)
       ([(''IntegrationSite#'', pyval_of_field site_id), (''Chromosome'', pyval_of_field chromosome),
         (''Position'', pyval_of_field position)], fieldnames) = Inr st'"
    by blast
  then show ?thesis using assms(1) c p
    by (cases st') (simp add: final_row_def row_get_def)
qed

lemma final_rows_ok:
  "(\<forall>row \<in> set rows. \<forall>f. \<exists>new_row f'. final_row row directions lengths f = Inr (new_row, f'))
     \<Longrightarrow> \<exists>final_distances' fieldnames'.
           final_rows rows directions lengths final_distances fieldnames = Inr (final_distances', fieldnames')"
proof (induction rows arbitrary: final_distances fieldnames)
  case Nil
  then show ?case by simp
next
  case (Cons row rows)
  from Cons.prems obtain new_row f' where 1: "final_row row directions lengths fieldnames = Inr (new_row, f')"
    by (meson list.set_intros(1))
  from Cons.prems have "\<forall>row \<in> set rows. \<forall>f. \<exists>new_row f'. final_row row directions lengths f = Inr (new_row, f')"
    by simp
  from Cons.IH [OF this, of "final_distances @ [new_row]" f'] 1 show ?case by simp
qed

lemma user_direction_assigned:
  "user_direction directions site_id key =
     (case (case directions site_id of None \<Rightarrow> None | Some d \<Rightarrow> d key) of
        None \<Rightarrow> Some []
      | Some direction \<Rightarrow> direction)"
  by (simp add: user_direction_def split: option.splits)

lemma final_value_rule:
  assumes "final_value row directions lengths site_id enzyme t = Inr v"
  shows "(\<forall>column.
            (case directions site_id of None \<Rightarrow> None | Some d \<Rightarrow> d (direction_key enzyme t)) = Some (Some ''up'')
              \<and> column = str_field enzyme @ '' UpstreamDist''
            \<or> (case directions site_id of None \<Rightarrow> None | Some d \<Rightarrow> d (direction_key enzyme t)) = Some (Some ''down'')
              \<and> column = str_field enzyme @ '' DownstreamDist''
           \<longrightarrow> dist_key enzyme (user_direction directions site_id (direction_key enzyme t)) = Some column
               \<and> (row column = None \<longrightarrow> v = PyStr ''N/A'')
               \<and> (row column = Some (Some ''N/A'') \<longrightarrow> v = PyStr ''N/A'')
               \<and> (\<forall>cell. row column = Some (Some cell) \<and> cell \<noteq> ''N/A'' \<longrightarrow>
                     (\<exists>base offsets offset.
                         py_int cell = Some base \<and> map_of lengths enzyme = Some offsets
                         \<and> map_of offsets t = Some offset \<and> v = PyInt (base + offset))))
       \<and> ((case directions site_id of None \<Rightarrow> None | Some d \<Rightarrow> d (direction_key enzyme t)) \<noteq> Some (Some ''up'')
            \<and> (case directions site_id of None \<Rightarrow> None | Some d \<Rightarrow> d (direction_key enzyme t)) \<noteq> Some (Some ''down'')
           \<longrightarrow> dist_key enzyme (user_direction directions site_id (direction_key enzyme t)) = None
               \<and> v = PyStr ''N/A'')"
proof -
  let ?key = "direction_key enzyme t"
  let ?assigned = "case directions site_id of None \<Rightarrow> None | Some d \<Rightarrow> d ?key"
  let ?d = "user_direction directions site_id ?key"
  have d: "?d = (case ?assigned of None \<Rightarrow> Some [] | Some direction \<Rightarrow> direction)"
    by (rule user_direction_assigned)
  have run: "final_distance row lengths enzyme t (dist_key enzyme ?d) = Inr v"
    using assms by (simp add: final_value_def)
  have selected: "\<And>column. dist_key enzyme ?d = Some column \<Longrightarrow> column \<noteq> [] \<Longrightarrow>
      (row column = None \<longrightarrow> v = PyStr ''N/A'')
      \<and> (row column = Some (Some ''N/A'') \<longrightarrow> v = PyStr ''N/A'')
      \<and> (\<forall>cell. row column = Some (Some cell) \<and> cell \<noteq> ''N/A'' \<longrightarrow>
            (\<exists>base offsets offset.
                py_int cell = Some base \<and> map_of lengths enzyme = Some offsets
                \<and> map_of offsets t = Some offset \<and> v = PyInt (base + offset)))"
    using run
    by (auto simp: final_distance_def dict_get_def split: option.splits sum.splits if_splits)
  have up: "?assigned = Some (Some ''up'') \<Longrightarrow> dist_key enzyme ?d = Some (str_field enzyme @ '' UpstreamDist'')"
    by (simp add: d dist_key_def)
  have down: "?assigned = Some (Some ''down'') \<Longrightarrow> dist_key enzyme ?d = Some (str_field enzyme @ '' DownstreamDist'')"
    by (simp add: d dist_key_def)
  have other: "?assigned \<noteq> Some (Some ''up'') \<and> ?assigned \<noteq> Some (Some ''down'')
      \<longrightarrow> dist_key enzyme ?d = None \<and> v = PyStr ''N/A''"
  proof
    assume a: "?assigned \<noteq> Some (Some ''up'') \<and> ?assigned \<noteq> Some (Some ''down'')"
    then have "?d \<noteq> Some ''up''" and "?d \<noteq> Some ''down''"
      by (auto simp: d split: option.splits)
    then have none: "dist_key enzyme ?d = None" by (simp add: dist_key_def)
    with run show "dist_key enzyme ?d = None \<and> v = PyStr ''N/A''"
      by (simp add: final_distance_def)
  qed
  show ?thesis
  proof (intro conjI allI impI)
    fix column
    assume c: "?assigned = Some (Some ''up'') \<and> column = str_field enzyme @ '' UpstreamDist''
            \<or> ?assigned = Some (Some ''down'') \<and> column = str_field enzyme @ '' DownstreamDist''"
    then have k: "dist_key enzyme ?d = Some column" and ne: "column \<noteq> []"
      using up down by auto
    from k show "dist_key enzyme ?d = Some column" .
    from selected [OF k ne] show "row column = None \<Longrightarrow> v = PyStr ''N/A''" by blast
    from selected [OF k ne] show "row column = Some (Some ''N/A'') \<Longrightarrow> v = PyStr ''N/A''" by blast
    fix cell
    assume "row column = Some (Some cell) \<and> cell \<noteq> ''N/A''"
    with selected [OF k ne]
    show "\<exists>base offsets offset.
                py_int cell = Some base \<and> map_of lengths enzyme = Some offsets
                \<and> map_of offsets t = Some offset \<and> v = PyInt (base + offset)"
      by blast
  next
    assume "?assigned \<noteq> Some (Some ''up'') \<and> ?assigned \<noteq> Some (Some ''down'')"
    with other show "dist_key enzyme ?d = None" and "v = PyStr ''N/A''" by blast+
  qed
qed

text \<open>
  Claim C4. Take a distance table, directions and lengths. When every row has the three
  identity columns, every cell of a distance column of an enzyme of the lengths is missing,
  \<^verbatim>\<open>N/A\<close> or accepted by \<^verbatim>\<open>int\<close>, and every enzyme of the lengths has both offsets,
  \<open>calculate_final_distances\<close> returns. Whenever it returns, it returns one record for each
  row of the table, in order, and for every enzyme of the lengths and each of \<^verbatim>\<open>L\<close> and \<^verbatim>\<open>H\<close>
  the record of a row holds under \<^verbatim>\<open><enzyme>_<offset>\<close> the value of this rule. Let \<open>assigned\<close> be
  what the directions hold for the site of the row under \<^verbatim>\<open><enzyme>_<offset>\<close> (nothing when
  the site is not listed, or is listed without that key). For \<^verbatim>\<open>up\<close> the loop selects the
  column \<^verbatim>\<open><enzyme> UpstreamDist\<close> and for \<^verbatim>\<open>down\<close> the column \<^verbatim>\<open><enzyme> DownstreamDist\<close>; the
  value is \<^verbatim>\<open>N/A\<close> when the row lacks the column or holds \<^verbatim>\<open>N/A\<close> there, and otherwise the
  integer \<^verbatim>\<open>int\<close> reads from the cell plus \<^verbatim>\<open>lengths[enzyme][offset]\<close>, with nothing done to the
  sum. For anything else assigned, or nothing, no column is selected and the value is \<^verbatim>\<open>N/A\<close>
  whatever the row holds. (The record is read under the enzyme's own name: the statement
  leaves out an enzyme that another key of the lengths is printed like, which only \<^verbatim>\<open>None\<close>
  and the string \<^verbatim>\<open>None\<close> are.)
\<close>

theorem fragment_adjustment_rule:
  "(files w distances_file = Some table
      \<and> (\<forall>row \<in> set (dict_reader table).
            row ''IntegrationSite#'' \<noteq> None \<and> row ''Chromosome'' \<noteq> None \<and> row ''Position'' \<noteq> None
            \<and> (\<forall>e \<in> fst ` set lengths.
                  readable_cell (row (str_field e @ '' UpstreamDist''))
                  \<and> readable_cell (row (str_field e @ '' DownstreamDist''))))
      \<and> (\<forall>e \<in> fst ` set lengths. \<forall>t \<in> {''L'', ''H''}.
            \<exists>offsets offset. map_of lengths e = Some offsets \<and> map_of offsets t = Some offset)
     \<longrightarrow> (\<exists>final_distances fieldnames.
            calculate_final_distances distances_file directions lengths w = Inr (final_distances, fieldnames)))
   \<and> (files w distances_file = Some table
      \<and> calculate_final_distances distances_file directions lengths w = Inr (final_distances, fieldnames)
     \<longrightarrow> length final_distances = length (dict_reader table)
        \<and> (\<forall>i < length (dict_reader table). \<forall>enzyme \<in> fst ` set lengths. \<forall>direction_type \<in> {''L'', ''H''}.
              (\<forall>e \<in> fst ` set lengths. str_field e = str_field enzyme \<longrightarrow> e = enzyme) \<longrightarrow>
              (\<exists>site_id. (dict_reader table ! i) ''IntegrationSite#'' = Some site_id \<and>
                 (let row = dict_reader table ! i;
                      key = direction_key enzyme direction_type;
                      assigned = (case directions site_id of None \<Rightarrow> None | Some d \<Rightarrow> d key);
                      final = map_of (final_distances ! i) key
                  in (\<forall>column.
                         assigned = Some (Some ''up'') \<and> column = str_field enzyme @ '' UpstreamDist''
                         \<or> assigned = Some (Some ''down'') \<and> column = str_field enzyme @ '' DownstreamDist''
                        \<longrightarrow> dist_key enzyme (user_direction directions site_id key) = Some column
                            \<and> (row column = None \<longrightarrow> final = Some (PyStr ''N/A''))
                            \<and> (row column = Some (Some ''N/A'') \<longrightarrow> final = Some (PyStr ''N/A''))
                            \<and> (\<forall>cell. row column = Some (Some cell) \<and> cell \<noteq> ''N/A'' \<longrightarrow>
                                  (\<exists>base offsets offset.
                                      py_int cell = Some base \<and> map_of lengths enzyme = Some offsets
                                      \<and> map_of offsets direction_type = Some offset
                                      \<and> final = Some (PyInt (base + offset)))))
                   \<and> (assigned \<noteq> Some (Some ''up'') \<and> assigned \<noteq> Some (Some ''down'')
                        \<longrightarrow> dist_key enzyme (user_direction directions site_id key) = None
                            \<and> final = Some (PyStr ''N/A''))))))"
proof (intro conjI impI)
  let ?ids = "{''IntegrationSite#'', ''Chromosome'', ''Position''}"
  assume a: "files w distances_file = Some table
      \<and> (\<forall>row \<in> set (dict_reader table).
            row ''IntegrationSite#'' \<noteq> None \<and> row ''Chromosome'' \<noteq> None \<and> row ''Position'' \<noteq> None
            \<and> (\<forall>e \<in> fst ` set lengths.
                  readable_cell (row (str_field e @ '' UpstreamDist''))
                  \<and> readable_cell (row (str_field e @ '' DownstreamDist''))))
      \<and> (\<forall>e \<in> fst ` set lengths. \<forall>t \<in> {''L'', ''H''}.
            \<exists>offsets offset. map_of lengths e = Some offsets \<and> map_of offsets t = Some offset)"
  then have tab: "files w distances_file = Some table"
    and rows: "\<forall>row \<in> set (dict_reader table).
            row ''IntegrationSite#'' \<noteq> None \<and> row ''Chromosome'' \<noteq> None \<and> row ''Position'' \<noteq> None
            \<and> (\<forall>e \<in> fst ` set lengths.
                  readable_cell (row (str_field e @ '' UpstreamDist''))
                  \<and> readable_cell (row (str_field e @ '' DownstreamDist'')))"
    and offs: "\<forall>e \<in> fst ` set lengths. \<forall>t \<in> {''L'', ''H''}.
            \<exists>offsets offset. map_of lengths e = Some offsets \<and> map_of offsets t = Some offset"
    by blast+
  have "\<forall>row \<in> set (dict_reader table). \<forall>f. \<exists>new_row f'. final_row row directions lengths f = Inr (new_row, f')"
  proof (intro ballI allI)
    fix row f
    assume r: "row \<in> set (dict_reader table)"
    with rows obtain site_id where sid: "row ''IntegrationSite#'' = Some site_id"
      and c: "row ''Chromosome'' \<noteq> None" and p: "row ''Position'' \<noteq> None"
      by auto
    have "\<forall>e \<in> fst ` set lengths. \<forall>t \<in> {''L'', ''H''}.
           \<exists>v. final_value row directions lengths site_id e t = Inr v"
    proof (intro ballI)
      fix e t
      assume e: "e \<in> fst ` set lengths" and t: "t \<in> {''L'', ''H''}"
      from offs e t obtain offsets offset where "map_of lengths e = Some offsets" "map_of offsets t = Some offset"
        by blast
      moreover from rows r e have "readable_cell (row (str_field e @ '' UpstreamDist''))"
        "readable_cell (row (str_field e @ '' DownstreamDist''))"
        by blast+
      ultimately show "\<exists>v. final_value row directions lengths site_id e t = Inr v"
        by (intro final_value_ok)
    qed
    with sid c p show "\<exists>new_row f'. final_row row directions lengths f = Inr (new_row, f')"
      by (intro final_row_ok)
  qed
  from final_rows_ok [OF this, of "[]" ?ids] tab
  show "\<exists>final_distances fieldnames.
            calculate_final_distances distances_file directions lengths w = Inr (final_distances, fieldnames)"
    by (simp add: calculate_final_distances_def)
next
  let ?ids = "{''IntegrationSite#'', ''Chromosome'', ''Position''}"
  let ?rows = "dict_reader table"
  assume a: "files w distances_file = Some table
      \<and> calculate_final_distances distances_file directions lengths w = Inr (final_distances, fieldnames)"
  then have run: "final_rows ?rows directions lengths [] ?ids = Inr (final_distances, fieldnames)"
    by (auto simp: calculate_final_distances_def)
  from final_rows_indexed [OF run] obtain new where
    new: "final_distances = [] @ new" "length new = length ?rows"
    and made: "\<forall>i < length ?rows. \<exists>f f'. final_row (?rows ! i) directions lengths f = Inr (new ! i, f')"
    by blast
  from new show len: "length final_distances = length ?rows" by simp
  show "\<forall>i < length ?rows. \<forall>enzyme \<in> fst ` set lengths. \<forall>direction_type \<in> {''L'', ''H''}.
              (\<forall>e \<in> fst ` set lengths. str_field e = str_field enzyme \<longrightarrow> e = enzyme) \<longrightarrow>
              (\<exists>site_id. (?rows ! i) ''IntegrationSite#'' = Some site_id \<and>
                 (let row = ?rows ! i;
                      key = direction_key enzyme direction_type;
                      assigned = (case directions site_id of None \<Rightarrow> None | Some d \<Rightarrow> d key);
                      final = map_of (final_distances ! i) key
                  in (\<forall>column.
                         assigned = Some (Some ''up'') \<and> column = str_field enzyme @ '' UpstreamDist''
                         \<or> assigned = Some (Some ''down'') \<and> column = str_field enzyme @ '' DownstreamDist''
                        \<longrightarrow> dist_key enzyme (user_direction directions site_id key) = Some column
                            \<and> (row column = None \<longrightarrow> final = Some (PyStr ''N/A''))
                            \<and> (row column = Some (Some ''N/A'') \<longrightarrow> final = Some (PyStr ''N/A''))
                            \<and> (\<forall>cell. row column = Some (Some cell) \<and> cell \<noteq> ''N/A'' \<longrightarrow>
                                  (\<exists>base offsets offset.
                                      py_int cell = Some base \<and> map_of lengths enzyme = Some offsets
                                      \<and> map_of offsets direction_type = Some offset
                                      \<and> final = Some (PyInt (base + offset)))))
                   \<and> (assigned \<noteq> Some (Some ''up'') \<and> assigned \<noteq> Some (Some ''down'')
                        \<longrightarrow> dist_key enzyme (user_direction directions site_id key) = None
                            \<and> final = Some (PyStr ''N/A''))))"
  proof (intro allI ballI impI)
    fix i enzyme direction_type
    assume i: "i < length ?rows" and e: "enzyme \<in> fst ` set lengths"
      and t: "direction_type \<in> {''L'', ''H''}"
      and uniq: "\<forall>e \<in> fst ` set lengths. str_field e = str_field enzyme \<longrightarrow> e = enzyme"
    from made i new obtain f f' where fr: "final_row (?rows ! i) directions lengths f = Inr (final_distances ! i, f')"
      by auto
    from fr obtain site_id where sid: "(?rows ! i) ''IntegrationSite#'' = Some site_id"
      by (rule final_row_Inr)
    from final_row_entry [OF fr sid e t]
    obtain v e' t' where v: "map_of (final_distances ! i) (direction_key enzyme direction_type) = Some v"
      and e': "e' \<in> fst ` set lengths" and t': "t' \<in> {''L'', ''H''}"
      and same: "direction_key e' t' = direction_key enzyme direction_type"
      and val: "final_value (?rows ! i) directions lengths site_id e' t' = Inr v"
      by blast
    from direction_key_inj [OF same t' t] have "str_field e' = str_field enzyme" "t' = direction_type"
      by simp_all
    with uniq e' val have "final_value (?rows ! i) directions lengths site_id enzyme direction_type = Inr v"
      by auto
    from final_value_rule [OF this] v sid
    show "\<exists>site_id. (?rows ! i) ''IntegrationSite#'' = Some site_id \<and>
                 (let row = ?rows ! i;
                      key = direction_key enzyme direction_type;
                      assigned = (case directions site_id of None \<Rightarrow> None | Some d \<Rightarrow> d key);
                      final = map_of (final_distances ! i) key
                  in (\<forall>column.
                         assigned = Some (Some ''up'') \<and> column = str_field enzyme @ '' UpstreamDist''
                         \<or> assigned = Some (Some ''down'') \<and> column = str_field enzyme @ '' DownstreamDist''
                        \<longrightarrow> dist_key enzyme (user_direction directions site_id key) = Some column
                            \<and> (row column = None \<longrightarrow> final = Some (PyStr ''N/A''))
                            \<and> (row column = Some (Some ''N/A'') \<longrightarrow> final = Some (PyStr ''N/A''))
                            \<and> (\<forall>cell. row column = Some (Some cell) \<and> cell \<noteq> ''N/A'' \<longrightarrow>
                                  (\<exists>base offsets offset.
                                      py_int cell = Some base \<and> map_of lengths enzyme = Some offsets
                                      \<and> map_of offsets direction_type = Some offset
                                      \<and> final = Some (PyInt (base + offset)))))
                   \<and> (assigned \<noteq> Some (Some ''up'') \<and> assigned \<noteq> Some (Some ''down'')
                        \<longrightarrow> dist_key enzyme (user_direction directions site_id key) = None
                            \<and> final = Some (PyStr ''N/A'')))"
      unfolding Let_def by (intro exI [of _ site_id]) simp
  qed
qed

theorem fragment_adjustment_rule_witness:
  "length (fst (projr (calculate_final_distances ''distances.csv'' adjust_directions example_lengths adjust_world))) = 4
   \<and> map_of (fst (projr (calculate_final_distances ''distances.csv'' adjust_directions example_lengths adjust_world)) ! 0)
         ''EcoRI_L'' = Some (PyInt 250)
   \<and> map_of (fst (projr (calculate_final_distances ''distances.csv'' adjust_directions example_lengths adjust_world)) ! 0)
         ''EcoRI_H'' = Some (PyStr ''N/A'')
   \<and> map_of (fst (projr (calculate_final_distances ''distances.csv'' adjust_directions example_lengths adjust_world)) ! 1)
         ''EcoRI_L'' = Some (PyInt 55)
   \<and> map_of (fst (projr (calculate_final_distances ''distances.csv'' adjust_directions example_lengths adjust_world)) ! 1)
         ''EcoRI_H'' = Some (PyInt (- 5))
   \<and> map_of (fst (projr (calculate_final_distances ''distances.csv'' adjust_directions example_lengths adjust_world)) ! 2)
         ''EcoRI_L'' = Some (PyStr ''N/A'')
   \<and> map_of (fst (projr (calculate_final_distances ''distances.csv'' adjust_directions example_lengths adjust_world)) ! 2)
         ''EcoRI_H'' = Some (PyStr ''N/A'')
   \<and> map_of (fst (projr (calculate_final_distances ''distances.csv'' adjust_directions example_lengths adjust_world)) ! 3)
         ''EcoRI_L'' = Some (PyStr ''N/A'')"
proof -
  let ?header = "[''IntegrationSite#'', ''Chromosome'', ''Position'', ''EcoRI UpstreamDist'', ''EcoRI DownstreamDist'']"
  let ?table = "[?header,
                  [''site1'', ''chr1'', ''300'', ''200'', ''N/A''],
                  [''site2'', ''chr1'', ''40'', ''N/A'', ''5''],
                  [''site3'', ''chr2'', ''10'', ''7'', ''8''],
                  [''site4'', ''chr2'', ''20'', ''1'', ''2'']]"
  have tab: "files adjust_world ''distances.csv'' = Some ?table"
    by (simp add: adjust_world_def)
  have rows: "dict_reader ?table =
      [dict_row ?header [''site1'', ''chr1'', ''300'', ''200'', ''N/A''],
       dict_row ?header [''site2'', ''chr1'', ''40'', ''N/A'', ''5''],
       dict_row ?header [''site3'', ''chr2'', ''10'', ''7'', ''8''],
       dict_row ?header [''site4'', ''chr2'', ''20'', ''1'', ''2'']]"
    by (simp add: dict_reader_def)
  have p: "py_int ''200'' = Some 200" "py_int ''5'' = Some 5" "py_int ''7'' = Some 7"
    "py_int ''8'' = Some 8" "py_int ''1'' = Some 1" "py_int ''2'' = Some 2"
    by code_simp+
  have keys: "fst ` set example_lengths = {Some ''EcoRI''}"
    by (simp add: example_lengths_def)
  have offs: "map_of example_lengths (Some ''EcoRI'') = Some [(''L'', 50), (''H'', - 10)]"
    by (simp add: example_lengths_def)
  have "\<exists>final_distances fieldnames.
          calculate_final_distances ''distances.csv'' adjust_directions example_lengths adjust_world
            = Inr (final_distances, fieldnames)"
    using fragment_adjustment_rule [where w = adjust_world and distances_file = "''distances.csv''"
        and table = ?table and directions = adjust_directions and lengths = example_lengths,
        THEN conjunct1]
    by (simp add: tab rows keys offs dict_row_def readable_cell_def p)
  then obtain fd fs where
    run: "calculate_final_distances ''distances.csv'' adjust_directions example_lengths adjust_world = Inr (fd, fs)"
    by blast
  note rule = fragment_adjustment_rule [where w = adjust_world and distances_file = "''distances.csv''"
      and table = ?table and directions = adjust_directions and lengths = example_lengths
      and final_distances = fd and fieldnames = fs, THEN conjunct2, rule_format, OF conjI, OF tab run]
  from rule have len: "length fd = 4" by (simp add: rows)
  note entry = rule [THEN conjunct2, rule_format, where enzyme = "Some ''EcoRI''"]
  have l0: "map_of (fd ! 0) ''EcoRI_L'' = Some (PyInt 250)"
    using entry [where i = 0 and direction_type = "''L''"]
    by (auto simp: rows keys offs p dict_row_def Let_def direction_key_def adjust_directions_def)
  have h0: "map_of (fd ! 0) ''EcoRI_H'' = Some (PyStr ''N/A'')"
    using entry [where i = 0 and direction_type = "''H''"]
    by (auto simp: rows keys offs p dict_row_def Let_def direction_key_def adjust_directions_def)
  have l1: "map_of (fd ! 1) ''EcoRI_L'' = Some (PyInt 55)"
    using entry [where i = 1 and direction_type = "''L''"]
    by (auto simp: rows keys offs p dict_row_def Let_def direction_key_def adjust_directions_def)
  have h1: "map_of (fd ! 1) ''EcoRI_H'' = Some (PyInt (- 5))"
    using entry [where i = 1 and direction_type = "''H''"]
    by (auto simp: rows keys offs p dict_row_def Let_def direction_key_def adjust_directions_def)
  have l2: "map_of (fd ! 2) ''EcoRI_L'' = Some (PyStr ''N/A'')"
    using entry [where i = 2 and direction_type = "''L''"]
    by (auto simp: rows keys offs p dict_row_def Let_def direction_key_def adjust_directions_def)
  have h2: "map_of (fd ! 2) ''EcoRI_H'' = Some (PyStr ''N/A'')"
    using entry [where i = 2 and direction_type = "''H''"]
    by (auto simp: rows keys offs p dict_row_def Let_def direction_key_def adjust_directions_def)
  have l3: "map_of (fd ! 3) ''EcoRI_L'' = Some (PyStr ''N/A'')"
    using entry [where i = 3 and direction_type = "''L''"]
    by (auto simp: rows keys offs p dict_row_def Let_def direction_key_def adjust_directions_def)
  from len l0 h0 l1 h1 l2 h2 l3 show ?thesis by (simp add: run)
qed

subsection \<open>Records and field names\<close>

text \<open>
  Claim C9, as the program has it. Every record \<open>calculate_final_distances\<close> returns holds,
  for each enzyme of the lengths and each of \<^verbatim>\<open>L\<close> and \<^verbatim>\<open>H\<close>, an integer or \<^verbatim>\<open>N/A\<close> under
  \<^verbatim>\<open><enzyme>_<offset>\<close>, and its keys are the three identity columns and exactly those names.
  The field names returned are that same set when at least one record is returned. The
  names are added inside the loop over the rows, so with no record the field names are the
  three identity columns only.
\<close>

theorem final_records_complete:
  assumes "calculate_final_distances distances_file directions lengths w = Inr (final_distances, fieldnames)"
  shows "(\<forall>record \<in> set final_distances. \<forall>enzyme \<in> fst ` set lengths. \<forall>direction_type \<in> {''L'', ''H''}.
            \<exists>v. map_of record (direction_key enzyme direction_type) = Some v
                \<and> (v = PyStr ''N/A'' \<or> (\<exists>n. v = PyInt n)))
       \<and> (\<forall>record \<in> set final_distances.
            fst ` set record =
              {''IntegrationSite#'', ''Chromosome'', ''Position''}
              \<union> {direction_key e t | e t. e \<in> fst ` set lengths \<and> t \<in> {''L'', ''H''}})
       \<and> (final_distances \<noteq> [] \<longrightarrow>
            fieldnames =
              {''IntegrationSite#'', ''Chromosome'', ''Position''}
              \<union> {direction_key e t | e t. e \<in> fst ` set lengths \<and> t \<in> {''L'', ''H''}})
       \<and> (final_distances = [] \<longrightarrow> fieldnames = {''IntegrationSite#'', ''Chromosome'', ''Position''})"
proof -
  let ?ids = "{''IntegrationSite#'', ''Chromosome'', ''Position''}"
  let ?keys = "{direction_key e t | e t. e \<in> fst ` set lengths \<and> t \<in> {''L'', ''H''}}"
  have keys: "spec_keys (map fst lengths) = ?keys" by (simp add: spec_keys_def)
  from assms obtain table where
    run: "final_rows (dict_reader table) directions lengths [] ?ids = Inr (final_distances, fieldnames)"
    by (auto simp: calculate_final_distances_def split: option.splits)
  from final_rows_result [OF run] obtain new where
    names: "fieldnames = (if dict_reader table = [] then ?ids else ?ids \<union> spec_keys (map fst lengths))"
    and new: "final_distances = [] @ new" "length new = length (dict_reader table)"
    and made: "\<forall>record \<in> set new. \<exists>row \<in> set (dict_reader table). \<exists>f f'.
                 final_row row directions lengths f = Inr (record, f')"
    by blast
  from new have fd: "final_distances = new" and empty: "final_distances = [] \<longleftrightarrow> dict_reader table = []"
    by auto
  have entries: "\<forall>record \<in> set final_distances. \<forall>enzyme \<in> fst ` set lengths. \<forall>direction_type \<in> {''L'', ''H''}.
            \<exists>v. map_of record (direction_key enzyme direction_type) = Some v
                \<and> (v = PyStr ''N/A'' \<or> (\<exists>n. v = PyInt n))"
  proof (intro ballI)
    fix rcd enzyme direction_type
    assume r: "rcd \<in> set final_distances" and e: "enzyme \<in> fst ` set lengths"
      and t: "direction_type \<in> {''L'', ''H''}"
    from r made fd obtain row f f' where fr: "final_row row directions lengths f = Inr (rcd, f')"
      by blast
    from fr obtain site_id where sid: "row ''IntegrationSite#'' = Some site_id"
      by (rule final_row_Inr)
    from final_row_entry [OF fr sid e t]
    obtain v e' t' where v: "map_of rcd (direction_key enzyme direction_type) = Some v"
      and val: "final_value row directions lengths site_id e' t' = Inr v"
      by blast
    from val have "v = PyStr ''N/A'' \<or> (\<exists>n. v = PyInt n)"
      unfolding final_value_def by (rule final_distance_value)
    with v show "\<exists>v. map_of rcd (direction_key enzyme direction_type) = Some v
                \<and> (v = PyStr ''N/A'' \<or> (\<exists>n. v = PyInt n))"
      by blast
  qed
  have dense: "\<forall>record \<in> set final_distances. fst ` set record = ?ids \<union> ?keys"
  proof
    fix rcd
    assume "rcd \<in> set final_distances"
    with made fd obtain row f f' where "final_row row directions lengths f = Inr (rcd, f')"
      by blast
    from final_row_keys [OF this] show "fst ` set rcd = ?ids \<union> ?keys" by (simp only: keys)
  qed
  have some: "final_distances \<noteq> [] \<longrightarrow> fieldnames = ?ids \<union> ?keys"
    using names empty keys by simp
  have none: "final_distances = [] \<longrightarrow> fieldnames = ?ids"
    using names empty by simp
  from entries dense some none show ?thesis by blast
qed

theorem final_records_complete_witness:
  "calculate_final_distances ''distances.csv'' example_directions example_lengths aligned_world =
     Inr ([[(''IntegrationSite#'', PyStr ''site1''), (''Chromosome'', PyStr ''chr1''), (''Position'', PyStr ''300''),
            (''EcoRI_L'', PyInt 250), (''EcoRI_H'', PyStr ''N/A'')],
           [(''IntegrationSite#'', PyStr ''site2''), (''Chromosome'', PyStr ''chr1''), (''Position'', PyStr ''40''),
            (''EcoRI_L'', PyStr ''N/A''), (''EcoRI_H'', PyStr ''N/A'')]],
          {''IntegrationSite#'', ''Chromosome'', ''Position'', ''EcoRI_L'', ''EcoRI_H''})
   \<and> {''IntegrationSite#'', ''Chromosome'', ''Position'', ''EcoRI_L'', ''EcoRI_H''} =
       {''IntegrationSite#'', ''Chromosome'', ''Position''}
       \<union> {direction_key e t | e t. e \<in> fst ` set example_lengths \<and> t \<in> {''L'', ''H''}}
   \<and> calculate_final_distances ''distances.csv'' example_directions example_lengths header_only_world =
       Inr ([], {''IntegrationSite#'', ''Chromosome'', ''Position''})"
proof -
  have a: "calculate_final_distances ''distances.csv'' example_directions example_lengths aligned_world =
     Inr ([[(''IntegrationSite#'', PyStr ''site1''), (''Chromosome'', PyStr ''chr1''), (''Position'', PyStr ''300''),
            (''EcoRI_L'', PyInt 250), (''EcoRI_H'', PyStr ''N/A'')],
           [(''IntegrationSite#'', PyStr ''site2''), (''Chromosome'', PyStr ''chr1''), (''Position'', PyStr ''40''),
            (''EcoRI_L'', PyStr ''N/A''), (''EcoRI_H'', PyStr ''N/A'')]],
          {''IntegrationSite#'', ''Chromosome'', ''Position'', ''EcoRI_L'', ''EcoRI_H''})"
    by code_simp
  have b: "calculate_final_distances ''distances.csv'' example_directions example_lengths header_only_world =
       Inr ([], {''IntegrationSite#'', ''Chromosome'', ''Position''})"
    by code_simp
  from final_records_complete [OF a]
  have "{''IntegrationSite#'', ''Chromosome'', ''Position'', ''EcoRI_L'', ''EcoRI_H''} =
       {''IntegrationSite#'', ''Chromosome'', ''Position''}
       \<union> {direction_key e t | e t. e \<in> fst ` set example_lengths \<and> t \<in> {''L'', ''H''}}"
    by simp
  with a b show ?thesis by simp
qed

text \<open>
  With lengths for \<^verbatim>\<open>EcoRI\<close> and a distance table that holds the header only, the field names
  returned lack \<^verbatim>\<open>EcoRI_L\<close> and \<^verbatim>\<open>EcoRI_H\<close>.
\<close>

theorem final_fieldnames_counterexample:
  "read_fragment_lengths ''lengths.csv'' header_only_world = Inr [(Some ''EcoRI'', [(''L'', 50), (''H'', - 10)])]
   \<and> calculate_final_distances ''distances.csv''
        (projr (read_directions ''directions.csv'' header_only_world))
        (projr (read_fragment_lengths ''lengths.csv'' header_only_world)) header_only_world
       = Inr ([], {''IntegrationSite#'', ''Chromosome'', ''Position''})
   \<and> {''IntegrationSite#'', ''Chromosome'', ''Position''}
       \<noteq> {''IntegrationSite#'', ''Chromosome'', ''Position'',
           direction_key (Some ''EcoRI'') ''L'', direction_key (Some ''EcoRI'') ''H''}"
  by code_simp

end
